theory Spec2Isabelle
  imports Main "HOL-Library.Signed_Division"
begin

section \<open>The Go library functions the sync code calls\<close>

text \<open>
  \<^verbatim>\<open>pkg/project/sync.go\<close> calls \<^verbatim>\<open>strings.HasPrefix\<close>, \<^verbatim>\<open>utf8.DecodeRuneInString\<close>
  (through the conversion \<^verbatim>\<open>[]rune(s)\<close>), \<^verbatim>\<open>filepath.Clean\<close>, \<^verbatim>\<open>filepath.Join\<close>,
  \<^verbatim>\<open>filepath.IsAbs\<close>, \<^verbatim>\<open>filepath.ToSlash\<close>, \<^verbatim>\<open>filepath.Match\<close> and
  \<^verbatim>\<open>filepath.Walk\<close>. They are modelled here as the Go standard library of the
  repository's time (Go 1.13) defines them on a Unix build: the separator is \<open>/\<close>,
  a Go string is a list of bytes, a rune is a natural number.
\<close>

definition backslash :: char where
  "backslash = CHR 0x5C"

definition RuneError :: nat where
  "RuneError = 65533"

definition HasPrefix :: "string \<Rightarrow> string \<Rightarrow> bool" where
  "HasPrefix s prefix = (length prefix \<le> length s \<and> take (length prefix) s = prefix)"

definition Contains :: "string \<Rightarrow> char \<Rightarrow> bool" where
  "Contains s c = (c \<in> set s)"

text \<open>\<^verbatim>\<open>utf8.DecodeRuneInString\<close>: the first rune of \<open>s\<close> and its width in bytes; an
  invalid or short encoding is \<open>(RuneError, 1)\<close>, the empty string \<open>(RuneError, 0)\<close>.\<close>

fun DecodeRuneInString :: "string \<Rightarrow> nat \<times> nat" where
  "DecodeRuneInString [] = (RuneError, 0)"
| "DecodeRuneInString (c # cs) =
     (let s0 = (of_char c :: nat) in
      if s0 < 128 then (s0, 1)
      else if s0 < 194 \<or> 244 < s0 then (RuneError, 1)
      else
        let sz = (if s0 < 224 then 2 else if s0 < 240 then 3 else (4::nat));
            lo = (if s0 = 224 then 160 else if s0 = 240 then 144 else (128::nat));
            hi = (if s0 = 237 then 159 else if s0 = 244 then 143 else (191::nat))
        in
        if length (c # cs) < sz then (RuneError, 1)
        else
          let s1 = (of_char (cs ! 0) :: nat) in
          if s1 < lo \<or> hi < s1 then (RuneError, 1)
          else if sz \<le> 2 then ((s0 mod 32) * 64 + s1 mod 64, 2)
          else
            let s2 = (of_char (cs ! 1) :: nat) in
            if s2 < 128 \<or> 191 < s2 then (RuneError, 1)
            else if sz \<le> 3 then ((s0 mod 16) * 4096 + (s1 mod 64) * 64 + s2 mod 64, 3)
            else
              let s3 = (of_char (cs ! 2) :: nat) in
              if s3 < 128 \<or> 191 < s3 then (RuneError, 1)
              else ((s0 mod 8) * 262144 + (s1 mod 64) * 4096 + (s2 mod 64) * 64 + s3 mod 64, 4))"

text \<open>\<^verbatim>\<open>utf8.EncodeRune\<close>, as the conversion \<^verbatim>\<open>string(runes)\<close> applies it: a surrogate
  or a value beyond U+10FFFF is written as U+FFFD.\<close>

definition EncodeRune :: "nat \<Rightarrow> string" where
  "EncodeRune r =
     (if r < 128 then [char_of r]
      else if r < 2048 then [char_of (192 + r div 64), char_of (128 + r mod 64)]
      else if (55296 \<le> r \<and> r \<le> 57343) \<or> 1114111 < r then [char_of (239::nat), char_of (191::nat), char_of (189::nat)]
      else if r < 65536 then
        [char_of (224 + r div 4096), char_of (128 + (r div 64) mod 64), char_of (128 + r mod 64)]
      else
        [char_of (240 + r div 262144), char_of (128 + (r div 4096) mod 64),
         char_of (128 + (r div 64) mod 64), char_of (128 + r mod 64)])"

lemma DecodeRuneInString_width:
  "s \<noteq> [] \<Longrightarrow> 1 \<le> snd (DecodeRuneInString s) \<and> snd (DecodeRuneInString s) \<le> 4"
  by (cases s) (simp_all add: Let_def)

text \<open>The conversion \<^verbatim>\<open>[]rune(s)\<close>: the runes of \<open>s\<close>, one after the other.\<close>

function runes :: "string \<Rightarrow> nat list" where
  "runes s =
     (if s = [] then []
      else fst (DecodeRuneInString s) # runes (drop (snd (DecodeRuneInString s)) s))"
  by pat_completeness auto
termination
proof (relation "measure length")
  show "wf (measure length)" by simp
next
  fix s :: string
  assume "s \<noteq> []"
  then have "1 \<le> snd (DecodeRuneInString s)" "0 < length s"
    using DecodeRuneInString_width [of s] by simp_all
  then show "(drop (snd (DecodeRuneInString s)) s, s) \<in> measure length"
    by simp
qed

declare runes.simps [simp del]

subsection \<open>filepath.Clean and filepath.Join\<close>

text \<open>The inner loop of the \<open>..\<close> case of \<^verbatim>\<open>Clean\<close>: \<open>w\<close> walks back to the last
  separator, never below \<open>dotdot\<close>.\<close>

fun backtrack :: "string \<Rightarrow> nat \<Rightarrow> nat \<Rightarrow> nat" where
  "backtrack out dotdot w =
     (if dotdot < w \<and> out ! w \<noteq> CHR ''/'' then backtrack out dotdot (w - 1) else w)"

declare backtrack.simps [simp del]

text \<open>The main loop of \<^verbatim>\<open>Clean\<close>. \<open>path\<close> is what is left to read (\<^verbatim>\<open>path[r:]\<close>),
  \<open>out\<close> the buffer written so far (\<^verbatim>\<open>out.w = length out\<close>).\<close>

function cleanLoop :: "bool \<Rightarrow> string \<Rightarrow> string \<Rightarrow> nat \<Rightarrow> string" where
  "cleanLoop rooted path out dotdot =
     (case path of
        [] \<Rightarrow> out
      | c # rest \<Rightarrow>
          if c = CHR ''/'' then cleanLoop rooted rest out dotdot
          else if c = CHR ''.'' \<and> (rest = [] \<or> hd rest = CHR ''/'') then
            cleanLoop rooted rest out dotdot
          else if c = CHR ''.'' \<and> hd rest = CHR ''.'' \<and> (tl rest = [] \<or> hd (tl rest) = CHR ''/'') then
            (if dotdot < length out then
               cleanLoop rooted (tl rest) (take (backtrack out dotdot (length out - 1)) out) dotdot
             else if \<not> rooted then
               cleanLoop rooted (tl rest)
                 ((if 0 < length out then out @ ''/'' else out) @ ''..'')
                 (length ((if 0 < length out then out @ ''/'' else out) @ ''..''))
             else cleanLoop rooted (tl rest) out dotdot)
          else
            cleanLoop rooted (dropWhile (\<lambda>x. x \<noteq> CHR ''/'') rest)
              ((if (rooted \<and> length out \<noteq> 1) \<or> (\<not> rooted \<and> length out \<noteq> 0)
                then out @ ''/'' else out) @ c # takeWhile (\<lambda>x. x \<noteq> CHR ''/'') rest)
              dotdot)"
  by pat_completeness auto
termination
  by (relation "measure (\<lambda>(rooted, path, out, dotdot). length path)")
    (auto intro: le_imp_less_Suc length_dropWhile_le)

declare cleanLoop.simps [simp del]

definition Clean :: "string \<Rightarrow> string" where
  "Clean path =
     (if path = [] then ''.''
      else
        let rooted = (hd path = CHR ''/'');
            out = (if rooted then cleanLoop True (tl path) ''/'' 1
                   else cleanLoop False path [] 0)
        in if out = [] then ''.'' else out)"

text \<open>\<^verbatim>\<open>filepath.Join(a, b)\<close>: the elements from the first non-empty one on are joined
  with the separator and cleaned; two empty elements give the empty string.\<close>

definition Join :: "string \<Rightarrow> string \<Rightarrow> string" where
  "Join a b =
     (if a \<noteq> [] then Clean (a @ ''/'' @ b)
      else if b \<noteq> [] then Clean b
      else [])"

definition IsAbs :: "string \<Rightarrow> bool" where
  "IsAbs path = HasPrefix path ''/''"

text \<open>\<^verbatim>\<open>filepath.ToSlash\<close> replaces the separator by a slash: nothing to do where the
  separator is the slash.\<close>

definition ToSlash :: "string \<Rightarrow> string" where
  "ToSlash path = path"

subsection \<open>filepath.Match\<close>

text \<open>\<^verbatim>\<open>scanChunk\<close>: the leading stars are dropped (\<open>star\<close> tells whether there was
  one); the chunk runs to the next star outside a character class.\<close>

fun scanLoop :: "bool \<Rightarrow> string \<Rightarrow> nat" where
  "scanLoop inrange [] = 0"
| "scanLoop inrange (c # rest) =
     (if c = backslash then
        (case rest of [] \<Rightarrow> 1 | _ # rest' \<Rightarrow> 2 + scanLoop inrange rest')
      else if c = CHR ''['' then 1 + scanLoop True rest
      else if c = CHR '']'' then 1 + scanLoop False rest
      else if c = CHR ''*'' then (if \<not> inrange then 0 else 1 + scanLoop inrange rest)
      else 1 + scanLoop inrange rest)"

definition scanChunk :: "string \<Rightarrow> bool \<times> string \<times> string" where
  "scanChunk pattern =
     (let star = (pattern \<noteq> [] \<and> hd pattern = CHR ''*'');
          pattern' = dropWhile (\<lambda>c. c = CHR ''*'') pattern;
          i = scanLoop False pattern'
      in (star, take i pattern', drop i pattern'))"

text \<open>\<^verbatim>\<open>getEsc\<close>: a possibly escaped rune of a character class and the rest of the
  chunk; \<open>None\<close> is \<^verbatim>\<open>ErrBadPattern\<close>.\<close>

definition getEsc :: "string \<Rightarrow> (nat \<times> string) option" where
  "getEsc chunk =
     (if chunk = [] \<or> hd chunk = CHR ''-'' \<or> hd chunk = CHR '']'' then None
      else
        let chunk1 = (if hd chunk = backslash then tl chunk else chunk) in
        if chunk1 = [] then None
        else
          let r = fst (DecodeRuneInString chunk1);
              n = snd (DecodeRuneInString chunk1);
              nchunk = drop n chunk1
          in if (r = RuneError \<and> n = 1) \<or> nchunk = [] then None else Some (r, nchunk))"

lemma getEsc_shorter: "getEsc chunk = Some (r, nchunk) \<Longrightarrow> length nchunk < length chunk"
proof -
  assume a: "getEsc chunk = Some (r, nchunk)"
  define chunk1 where "chunk1 = (if hd chunk = backslash then tl chunk else chunk)"
  from a have ne: "chunk \<noteq> []" "chunk1 \<noteq> []"
    and n: "nchunk = drop (snd (DecodeRuneInString chunk1)) chunk1"
    by (auto simp: getEsc_def Let_def chunk1_def split: if_splits)
  have "1 \<le> snd (DecodeRuneInString chunk1)"
    using DecodeRuneInString_width [OF ne(2)] by simp
  with ne n have "length nchunk < length chunk1" by simp
  moreover have "length chunk1 \<le> length chunk" by (simp add: chunk1_def)
  ultimately show ?thesis by simp
qed

text \<open>The loop of \<^verbatim>\<open>matchChunk\<close> that parses the ranges of a character class after the
  bracket and the caret: \<open>r\<close> is the rune of the name, \<open>match\<close> whether a range held it so
  far. The result is \<open>match\<close> and the chunk after the closing bracket.\<close>

function matchClass :: "nat \<Rightarrow> bool \<Rightarrow> nat \<Rightarrow> string \<Rightarrow> (bool \<times> string) option" where
  "matchClass r match nrange chunk =
     (if chunk \<noteq> [] \<and> hd chunk = CHR '']'' \<and> 0 < nrange then Some (match, tl chunk)
      else
        (case getEsc chunk of
           None \<Rightarrow> None
         | Some (lo, chunk1) \<Rightarrow>
             if hd chunk1 = CHR ''-'' then
               (case getEsc (tl chunk1) of
                  None \<Rightarrow> None
                | Some (hi, chunk2) \<Rightarrow>
                    matchClass r (match \<or> (lo \<le> r \<and> r \<le> hi)) (nrange + 1) chunk2)
             else matchClass r (match \<or> (lo \<le> r \<and> r \<le> lo)) (nrange + 1) chunk1))"
  by pat_completeness auto
termination
proof (relation "measure (\<lambda>(r, match, nrange, chunk). length chunk)")
  show "wf (measure (\<lambda>(r, match, nrange, chunk). length chunk))" by simp
next
  fix r :: nat and match :: bool and nrange :: nat and chunk chunk1 chunk2 :: string
    and x2 :: "nat \<times> string" and lo :: nat and x2a :: "nat \<times> string" and hi :: nat
  assume "getEsc chunk = Some x2" "(lo, chunk1) = x2"
    "getEsc (tl chunk1) = Some x2a" "(hi, chunk2) = x2a"
  then have "length chunk1 < length chunk" "length chunk2 < length (tl chunk1)"
    using getEsc_shorter [of chunk lo chunk1] getEsc_shorter [of "tl chunk1" hi chunk2] by auto
  then show "((r, match \<or> lo \<le> r \<and> r \<le> hi, nrange + 1, chunk2), r, match, nrange, chunk)
      \<in> measure (\<lambda>(r, match, nrange, chunk). length chunk)"
    by simp
next
  fix r :: nat and match :: bool and nrange :: nat and chunk chunk1 :: string
    and x2 :: "nat \<times> string" and lo :: nat
  assume "getEsc chunk = Some x2" "(lo, chunk1) = x2"
  then have "length chunk1 < length chunk"
    using getEsc_shorter [of chunk lo chunk1] by auto
  then show "((r, match \<or> lo \<le> r \<and> r \<le> lo, nrange + 1, chunk1), r, match, nrange, chunk)
      \<in> measure (\<lambda>(r, match, nrange, chunk). length chunk)"
    by simp
qed

declare matchClass.simps [simp del]

lemma matchClass_shorter:
  "matchClass r match nrange chunk = Some (m, chunk') \<Longrightarrow> length chunk' < length chunk"
proof (induction r match nrange chunk rule: matchClass.induct)
  case (1 r match nrange chunk)
  show ?case
  proof (cases "chunk \<noteq> [] \<and> hd chunk = CHR '']'' \<and> 0 < nrange")
    case True
    with "1.prems" have "chunk' = tl chunk"
      by (simp add: matchClass.simps [of r match nrange chunk])
    with True show ?thesis by (cases chunk) simp_all
  next
    case False
    with "1.prems" obtain lo chunk1 where g: "getEsc chunk = Some (lo, chunk1)"
      by (auto simp: matchClass.simps [of r match nrange chunk] split: option.splits)
    then have l1: "length chunk1 < length chunk" by (rule getEsc_shorter)
    show ?thesis
    proof (cases "hd chunk1 = CHR ''-''")
      case True
      with False g "1.prems" obtain hi chunk2 where g2: "getEsc (tl chunk1) = Some (hi, chunk2)"
        and r: "matchClass r (match \<or> (lo \<le> r \<and> r \<le> hi)) (nrange + 1) chunk2 = Some (m, chunk')"
        by (auto simp: matchClass.simps [of r match nrange chunk] split: option.splits)
      from g2 have "length chunk2 < length (tl chunk1)" by (rule getEsc_shorter)
      moreover from "1.IH"(1) [OF False g refl True g2 refl r] have "length chunk' < length chunk2" .
      ultimately show ?thesis using l1 by simp
    next
      case F2: False
      with False g "1.prems"
      have r: "matchClass r (match \<or> (lo \<le> r \<and> r \<le> lo)) (nrange + 1) chunk1 = Some (m, chunk')"
        by (auto simp: matchClass.simps [of r match nrange chunk])
      from "1.IH"(2) [OF False g refl F2 r] have "length chunk' < length chunk1" .
      then show ?thesis using l1 by simp
    qed
  qed
qed

text \<open>Go's \<^verbatim>\<open>error\<close> values that the pass handles: the two sentinel errors of
  \<^verbatim>\<open>path/filepath\<close>, the errors of the operating system (\<^verbatim>\<open>ErrNotExist\<close> is the one
  \<^verbatim>\<open>os.IsNotExist\<close> recognises), by their text, the errors made by \<^verbatim>\<open>errors.New\<close>
  and \<^verbatim>\<open>fmt.Errorf\<close>, and a \<^verbatim>\<open>*ProjectError\<close> used as an error. \<^verbatim>\<open>ProjectError\<close> and its
  operation tags are declared in another file of the package; the struct has the fields
  \<^verbatim>\<open>Op\<close>, \<^verbatim>\<open>Err\<close> and \<^verbatim>\<open>Desc\<close>, in the order of the composite literals of
  \<^verbatim>\<open>sync.go\<close>.\<close>

datatype errOp = errOpConNotFound | errBadPath | errOpSync | errOpSyncRef | errOpRequest
  | errOpNotFound | errOpOther string

datatype error = ErrBadPattern | SkipDir | ErrNotExist string | OSError string | New string
  | ErrProject ProjectError
and ProjectError = ProjectError errOp error string


text \<open>\<^verbatim>\<open>matchChunk\<close>: whether the chunk matches the beginning of \<open>s\<close>; the results are the
  rest of \<open>s\<close>, \<^verbatim>\<open>ok\<close> and \<^verbatim>\<open>err\<close>.\<close>

function (sequential) matchChunk :: "string \<Rightarrow> string \<Rightarrow> string \<times> bool \<times> error option" where
  "matchChunk [] s = (s, True, None)"
| "matchChunk (c # chunk) [] = ([], False, None)"
| "matchChunk (c # chunk) (s0 # s) =
     (if c = CHR ''['' then
        (if chunk = [] then ([], False, Some ErrBadPattern)
         else
           (case matchClass (fst (DecodeRuneInString (s0 # s))) False 0
                   (if hd chunk = CHR ''^'' then tl chunk else chunk) of
              None \<Rightarrow> ([], False, Some ErrBadPattern)
            | Some (match, chunk3) \<Rightarrow>
                if match = (hd chunk = CHR ''^'') then ([], False, None)
                else matchChunk chunk3 (drop (snd (DecodeRuneInString (s0 # s))) (s0 # s))))
      else if c = CHR ''?'' then
        (if s0 = CHR ''/'' then ([], False, None)
         else matchChunk chunk (drop (snd (DecodeRuneInString (s0 # s))) (s0 # s)))
      else if c = backslash then
        (case chunk of
           [] \<Rightarrow> ([], False, Some ErrBadPattern)
         | c1 # chunk1 \<Rightarrow> if c1 \<noteq> s0 then ([], False, None) else matchChunk chunk1 s)
      else if c \<noteq> s0 then ([], False, None)
      else matchChunk chunk s)"
  by pat_completeness auto
termination
proof (relation "measure (\<lambda>(chunk, s). length chunk)")
  show "wf (measure (\<lambda>(chunk, s). length chunk))" by simp
next
  fix c :: char and chunk :: string and s0 :: char and s :: string
    and x2 :: "bool \<times> string" and match :: bool and chunk3 :: string
  assume "matchClass (fst (DecodeRuneInString (s0 # s))) False 0
      (if hd chunk = CHR ''^'' then tl chunk else chunk) = Some x2" "(match, chunk3) = x2"
  then have "length chunk3 < length (if hd chunk = CHR ''^'' then tl chunk else chunk)"
    using matchClass_shorter by metis
  then have "length chunk3 < length (c # chunk)" by (simp split: if_splits)
  then show "((chunk3, drop (snd (DecodeRuneInString (s0 # s))) (s0 # s)), c # chunk, s0 # s)
      \<in> measure (\<lambda>(chunk, s). length chunk)"
    by simp
qed auto

declare matchChunk.simps [simp del]

text \<open>The loop of \<^verbatim>\<open>Match\<close> that, after a star, looks for a match of the chunk skipping
  \<open>i + 1\<close> bytes of the name, never a separator. \<open>lastChunk\<close> tells that the pattern is
  used up (\<^verbatim>\<open>len(pattern) == 0\<close>). The result is \<^verbatim>\<open>err\<close> when the loop returns an
  error, the new name when it continues the outer loop, and neither when it falls
  through.\<close>

fun starLoop :: "string \<Rightarrow> bool \<Rightarrow> string \<Rightarrow> error option \<times> string option" where
  "starLoop chunk lastChunk [] = (None, None)"
| "starLoop chunk lastChunk (c # name) =
     (if c = CHR ''/'' then (None, None)
      else
        (case matchChunk chunk name of
           (t, True, _) \<Rightarrow>
             if lastChunk \<and> 0 < length t then starLoop chunk lastChunk name else (None, Some t)
         | (_, False, Some e) \<Rightarrow> (Some e, None)
         | (_, False, None) \<Rightarrow> starLoop chunk lastChunk name))"

lemma scanLoop_pos: "p \<noteq> [] \<Longrightarrow> hd p \<noteq> CHR ''*'' \<Longrightarrow> 0 < scanLoop inrange p"
  by (cases p) (auto split: list.splits)

lemma scanChunk_shorter:
  assumes "pattern \<noteq> []" and "scanChunk pattern = (star, chunk, rest)"
  shows "length rest < length pattern"
proof (cases "hd pattern = CHR ''*''")
  case True
  with assms(1) have "length (dropWhile (\<lambda>c. c = CHR ''*'') pattern) < length pattern"
    by (cases pattern) (auto intro: le_imp_less_Suc length_dropWhile_le)
  with assms(2) show ?thesis by (auto simp: scanChunk_def Let_def)
next
  case False
  with assms(1) have d: "dropWhile (\<lambda>c. c = CHR ''*'') pattern = pattern"
    by (cases pattern) auto
  from False assms(1) have "0 < scanLoop False pattern" by (simp add: scanLoop_pos)
  with assms show ?thesis by (auto simp: scanChunk_def Let_def d)
qed

text \<open>\<^verbatim>\<open>filepath.Match(pattern, name)\<close>: the results \<^verbatim>\<open>matched\<close> and \<^verbatim>\<open>err\<close>.\<close>

function Match :: "string \<Rightarrow> string \<Rightarrow> bool \<times> error option" where
  "Match pattern name =
     (if pattern = [] then (name = [], None)
      else
        (case scanChunk pattern of
           (star, chunk, rest) \<Rightarrow>
             if star \<and> chunk = [] then (\<not> Contains name (CHR ''/''), None)
             else
               (case matchChunk chunk name of
                  (t, ok, err) \<Rightarrow>
                    if ok \<and> (t = [] \<or> rest \<noteq> []) then Match rest t
                    else if err \<noteq> None then (False, err)
                    else if star then
                      (case starLoop chunk (rest = []) name of
                         (Some e, _) \<Rightarrow> (False, Some e)
                       | (None, Some t') \<Rightarrow> Match rest t'
                       | (None, None) \<Rightarrow> (False, None))
                    else (False, None))))"
  by pat_completeness auto
termination
  by (relation "measure (\<lambda>(pattern, name). length pattern)")
    (auto dest: scanChunk_shorter [OF _ sym])

declare Match.simps [simp del]

section \<open>The ignore rules\<close>

text \<open>The first two statements of the loop body of \<^verbatim>\<open>ignoreFileOrDirectory\<close>: the rule is
  cleaned, and a leading slash (older versions of the settings file) is removed. The
  source removes it with \<^verbatim>\<open>string([]rune(fileName)[1:])\<close>, which decodes the rule into
  runes, drops the first one and encodes the others again.\<close>

definition rulePattern :: "string \<Rightarrow> string" where
  "rulePattern fileName =
     (if HasPrefix (Clean fileName) ''/''
      then concat (map EncodeRune (drop 1 (runes (Clean fileName))))
      else Clean fileName)"

text \<open>\<^verbatim>\<open>ignoreFileOrDirectory\<close>: the loop over the rules. An error of \<^verbatim>\<open>filepath.Match\<close>
  returns \<open>False\<close> at once; a match breaks out of the loop with \<open>True\<close>. The parameter
  \<open>isDir\<close> is not read, as in the source.\<close>

fun ignoreFileOrDirectory :: "string \<Rightarrow> bool \<Rightarrow> string list \<Rightarrow> bool" where
  "ignoreFileOrDirectory name isDir [] = False"
| "ignoreFileOrDirectory name isDir (fileName # cwSettingsIgnoredPathsList) =
     (case Match (rulePattern fileName) name of
        (matched, Some err) \<Rightarrow> False
      | (matched, None) \<Rightarrow>
          if matched then True
          else ignoreFileOrDirectory name isDir cwSettingsIgnoredPathsList)"

section \<open>The data of a sync pass\<close>

text \<open>The structs of \<^verbatim>\<open>sync.go\<close>. \<^verbatim>\<open>SyncResponse\<close> has the fields \<^verbatim>\<open>Status\<close> and
  \<^verbatim>\<open>StatusCode\<close> too; they are \<open>syncStatus\<close> and \<open>syncStatusCode\<close> here, since the
  names are taken by \<^verbatim>\<open>UploadedFile\<close>. Times are integers: \<open>ModTime\<close> is
  \<^verbatim>\<open>ModTime().UnixNano()\<close>, and \<^verbatim>\<open>/\<close> on \<^verbatim>\<open>int64\<close> is \<open>sdiv\<close>, which truncates towards
  zero.\<close>

record CompleteRequest =
  FileList :: "string list"
  DirectoryList :: "string list"
  ModifiedList :: "string list"
  TimeStamp :: int

record FileUploadMsg =
  IsDirectory :: bool
  Mode :: nat
  RelativePath :: string
  Message :: string

record UploadedFile =
  FilePath :: string
  Status :: string
  StatusCode :: int

record SyncResponse =
  syncStatus :: string
  syncStatusCode :: int
  UploadedFiles :: "UploadedFile list"

record FileInfo =
  IsDir :: bool
  ModTime :: int
  Perm :: nat

record walkerInfo =
  Path :: string
  FileInfo :: "FileInfo option"
  IgnoredPaths :: "string list"
  LastSync :: int

record SyncInfo =
  fileList :: "string list"
  directoryList :: "string list"
  modifiedList :: "string list"
  UploadedFileList :: "UploadedFile list"

record refPath =
  From :: string
  To :: string

text \<open>What \<^verbatim>\<open>sync.go\<close> uses of the types of the other packages: a connection (kept by
  its identifier), the project record the remote returns, the command line context, an
  HTTP request (its JSON body kept as the value that was encoded) and an HTTP
  response. \<open>StringFlag\<close> and \<open>IntFlag\<close> are the methods \<^verbatim>\<open>String\<close> and \<^verbatim>\<open>Int\<close> of
  \<^verbatim>\<open>cli.Context\<close>.\<close>

datatype Connection = Connection string

record Project =
  LocationOnDisk :: string

record Context =
  StringFlag :: "string \<Rightarrow> string"
  IntFlag :: "string \<Rightarrow> int"

datatype body = NoBody | UploadBody FileUploadMsg | CompleteBody CompleteRequest

record Request =
  Method :: string
  URL :: string
  Body :: body
  Header :: "(string \<times> string) list"

datatype Response = Response (respStatus: string) (respStatusCode: int)

text \<open>What the pass does to the remote, in order: the requests it hands to
  \<^verbatim>\<open>sechttp.DispatchHTTPRequest\<close>, and its calls of \<^verbatim>\<open>GetProjectFromID\<close> and
  \<^verbatim>\<open>GetProjectFileList\<close> (functions of another file of the package).\<close>

datatype event = Dispatch Request | GetProject string | GetFileList string

datatype panic = SliceBoundsOutOfRange | NilPointerDereference

datatype fmtArg = ArgString string | ArgError "error option" | ArgInt int

text \<open>The directory tree \<^verbatim>\<open>filepath.Walk\<close> reads: for an entry, \<^verbatim>\<open>lstat\<close> fails or gives
  its \<^verbatim>\<open>FileInfo\<close>; for a directory, \<^verbatim>\<open>readDirNames\<close> fails or gives the names of its
  entries, sorted.\<close>

datatype fsnode = LstatError error | Node FileInfo "error option" "(string \<times> fsnode) list"

text \<open>Everything outside \<^verbatim>\<open>sync.go\<close> that the pass reads or calls: the clock, the file
  system, the decoders of the two rule files, the functions of the other packages of
  the repository and of the Go library that are not modelled above. The answers of the
  remote may depend on what was sent before.\<close>

record world =
  Now :: int
  TrimSpace :: "string \<Rightarrow> string"
  Sprintf :: "string \<Rightarrow> fmtArg list \<Rightarrow> string"
  ProjectErrorText :: "ProjectError \<Rightarrow> string"
  zlibBase64 :: "string \<Rightarrow> string"
  textProjectPathDoesNotExist :: string
  GetConnectionID :: "string \<Rightarrow> ProjectError + string"
  GetConnectionByID :: "string \<Rightarrow> (error \<times> string) + Connection"
  PFEOriginFromConnection :: "Connection \<Rightarrow> (error \<times> string) + string"
  PathExists :: "string \<Rightarrow> bool"
  GetProjectFromID :: "event list \<Rightarrow> Connection \<Rightarrow> string \<Rightarrow> string \<Rightarrow> ProjectError + Project"
  GetProjectFileList :: "event list \<Rightarrow> Connection \<Rightarrow> string \<Rightarrow> string \<Rightarrow> ProjectError + string list"
  fsTree :: "string \<Rightarrow> fsnode"
  Stat :: "string \<Rightarrow> error + FileInfo"
  ReadFile :: "string \<Rightarrow> error + string"
  UnmarshalCWSettings :: "string \<Rightarrow> error + string list"
  UnmarshalRefPaths :: "string \<Rightarrow> error + refPath list"
  NewRequest :: "string \<Rightarrow> string \<Rightarrow> error option"
  DispatchHTTPRequest :: "event list \<Rightarrow> Request \<Rightarrow> Connection \<Rightarrow> (error \<times> string) + Response"

text \<open>The method \<^verbatim>\<open>Error()\<close> of an error value.\<close>

fun Error :: "world \<Rightarrow> error \<Rightarrow> string" where
  "Error w ErrBadPattern = ''syntax error in pattern''"
| "Error w SkipDir = ''skip this directory''"
| "Error w (ErrNotExist text) = text"
| "Error w (OSError text) = text"
| "Error w (New text) = text"
| "Error w (ErrProject e) = ProjectErrorText w e"

definition IsNotExist :: "error option \<Rightarrow> bool" where
  "IsNotExist err = (case err of Some (ErrNotExist _) \<Rightarrow> True | _ \<Rightarrow> False)"

section \<open>filepath.Walk\<close>

text \<open>\<^verbatim>\<open>walk\<close> of \<^verbatim>\<open>path/filepath\<close> (Go 1.12 and later): a directory is read before the
  walk function is called on it, and the function is called once, with the error of
  the read if there is one. \<open>walkNames\<close> is the loop over the names of a directory.
  The walk function threads a state and may panic.\<close>

fun walk :: "(string \<Rightarrow> FileInfo option \<Rightarrow> error option \<Rightarrow> 's \<Rightarrow> 'p + error option \<times> 's)
    \<Rightarrow> string \<Rightarrow> FileInfo \<Rightarrow> error option \<Rightarrow> (string \<times> fsnode) list \<Rightarrow> 's \<Rightarrow> 'p + error option \<times> 's"
  and walkNames :: "(string \<Rightarrow> FileInfo option \<Rightarrow> error option \<Rightarrow> 's \<Rightarrow> 'p + error option \<times> 's)
    \<Rightarrow> string \<Rightarrow> (string \<times> fsnode) list \<Rightarrow> 's \<Rightarrow> 'p + error option \<times> 's"
where
  "walk fn path info err names st =
     (if \<not> IsDir info then fn path (Some info) None st
      else
        (case fn path (Some info) err st of
           Inl p \<Rightarrow> Inl p
         | Inr (err1, st1) \<Rightarrow>
             if err \<noteq> None \<or> err1 \<noteq> None then Inr (err1, st1)
             else walkNames fn path names st1))"
| "walkNames fn path [] st = Inr (None, st)"
| "walkNames fn path ((name, LstatError err) # names) st =
     (case fn (Join path name) None (Some err) st of
        Inl p \<Rightarrow> Inl p
      | Inr (err1, st1) \<Rightarrow>
          if err1 \<noteq> None \<and> err1 \<noteq> Some SkipDir then Inr (err1, st1)
          else walkNames fn path names st1)"
| "walkNames fn path ((name, Node fileInfo rdErr entries) # names) st =
     (case walk fn (Join path name) fileInfo rdErr entries st of
        Inl p \<Rightarrow> Inl p
      | Inr (err, st1) \<Rightarrow>
          if err \<noteq> None \<and> (\<not> IsDir fileInfo \<or> err \<noteq> Some SkipDir) then Inr (err, st1)
          else walkNames fn path names st1)"

definition Walk :: "world \<Rightarrow> string
    \<Rightarrow> (string \<Rightarrow> FileInfo option \<Rightarrow> error option \<Rightarrow> 's \<Rightarrow> 'p + error option \<times> 's)
    \<Rightarrow> 's \<Rightarrow> 'p + error option \<times> 's" where
  "Walk w root fn st =
     (case (case fsTree w root of
              LstatError err \<Rightarrow> fn root None (Some err) st
            | Node info rdErr names \<Rightarrow> walk fn root info rdErr names st) of
        Inl p \<Rightarrow> Inl p
      | Inr (err, st1) \<Rightarrow> if err = Some SkipDir then Inr (None, st1) else Inr (err, st1))"

section \<open>The sync pass\<close>

text \<open>The functions of \<^verbatim>\<open>sync.go\<close>, in the order of their calls. A function that talks
  to the remote takes the events so far and returns them extended. A function in which
  Go can panic returns \<open>Inl\<close> with the panic and the events up to it. What
  \<^verbatim>\<open>fmt.Printf\<close> prints is left out.\<close>

definition syncFile :: "world \<Rightarrow> string \<Rightarrow> string \<Rightarrow> string \<Rightarrow> Connection \<Rightarrow> string \<Rightarrow> event list
    \<Rightarrow> (panic \<times> event list) + UploadedFile \<times> event list" where
  "syncFile w projectID projectPath path connection conURL tr =
     (if length path < length projectPath + 1 then Inl (SliceBoundsOutOfRange, tr)
      else
        let relativePath = ToSlash (drop (length projectPath + 1) path);
            uploadResponse = \<lparr>FilePath = relativePath, Status = ''Failed'', StatusCode = 0\<rparr>
        in
        (case Stat w path of
           Inl err \<Rightarrow> Inr (uploadResponse, tr)
         | Inr fileStat \<Rightarrow>
             (case ReadFile w path of
                Inl err \<Rightarrow> Inr (uploadResponse, tr)
              | Inr fileContent \<Rightarrow>
                  let fileUploadBody =
                        \<lparr>IsDirectory = IsDir fileStat, Mode = Perm fileStat,
                         RelativePath = relativePath, Message = zlibBase64 w fileContent\<rparr>;
                      projectUploadURL = conURL @ ''/api/v1/projects/'' @ projectID @ ''/upload''
                  in
                  (case NewRequest w ''PUT'' projectUploadURL of
                     Some err \<Rightarrow> Inl (NilPointerDereference, tr)
                   | None \<Rightarrow>
                       let request =
                             \<lparr>Method = ''PUT'', URL = projectUploadURL,
                              Body = UploadBody fileUploadBody,
                              Header = [(''Content-Type'', ''application/json'')]\<rparr>
                       in
                       (case DispatchHTTPRequest w tr request connection of
                          Inl httpSecError \<Rightarrow> Inr (uploadResponse, tr @ [Dispatch request])
                        | Inr resp \<Rightarrow>
                            Inr (\<lparr>FilePath = relativePath, Status = respStatus resp,
                                  StatusCode = respStatusCode resp\<rparr>,
                                 tr @ [Dispatch request]))))))"

text \<open>The variables the closure \<^verbatim>\<open>walker\<close> of \<^verbatim>\<open>syncFiles\<close> captures and updates:
  \<^verbatim>\<open>fileList\<close>, \<^verbatim>\<open>directoryList\<close>, \<^verbatim>\<open>modifiedList\<close>, \<^verbatim>\<open>uploadedFiles\<close> (the four fields of
  the \<^verbatim>\<open>SyncInfo\<close> that \<^verbatim>\<open>syncFiles\<close> returns, \<open>UploadedFileList\<close> holding
  \<^verbatim>\<open>uploadedFiles\<close>) and \<^verbatim>\<open>refPathsChanged\<close>; with them, the events so far.\<close>

record syncVars = SyncInfo +
  refPathsChanged :: bool
  sent :: "event list"

definition walker :: "world \<Rightarrow> string \<Rightarrow> string \<Rightarrow> Connection \<Rightarrow> string
    \<Rightarrow> string \<Rightarrow> walkerInfo \<Rightarrow> error option \<Rightarrow> syncVars
    \<Rightarrow> (panic \<times> event list) + error option \<times> syncVars" where
  "walker w projectPath projectID connection conURL path info err st =
     (if err \<noteq> None then Inr (err, st)
      else if path = projectPath then Inr (None, st)
      else if length path < length projectPath + 1 then Inl (SliceBoundsOutOfRange, sent st)
      else
        let relativePath = ToSlash (drop (length projectPath + 1) path) in
        (case FileInfo info of
           None \<Rightarrow> Inl (NilPointerDereference, sent st)
         | Some fi \<Rightarrow>
             if \<not> IsDir fi then
               (if ignoreFileOrDirectory relativePath False (IgnoredPaths info) then Inr (None, st)
                else
                  let st1 = st\<lparr>fileList := fileList st @ [relativePath]\<rparr>;
                      modifiedmillis = ModTime fi sdiv 1000000
                  in
                  if modifiedmillis > LastSync info then
                    (case syncFile w projectID projectPath (Path info) connection conURL (sent st1) of
                       Inl p \<Rightarrow> Inl p
                     | Inr (uploadResponse, tr) \<Rightarrow>
                         Inr (None,
                           st1\<lparr>UploadedFileList := UploadedFileList st1 @ [uploadResponse],
                               modifiedList := modifiedList st1 @ [relativePath],
                               refPathsChanged :=
                                 (if relativePath = ''.cw-refpaths.json'' then True
                                  else refPathsChanged st1),
                               sent := tr\<rparr>))
                  else Inr (None, st1))
             else
               (if ignoreFileOrDirectory relativePath True (IgnoredPaths info)
                then Inr (Some SkipDir, st)
                else Inr (None, st\<lparr>directoryList := directoryList st @ [relativePath]\<rparr>))))"

definition retrieveIgnoredPathsList :: "world \<Rightarrow> string \<Rightarrow> string list" where
  "retrieveIgnoredPathsList w projectPath =
     (let cwSettingsPath = Join projectPath ''.cw-settings'' in
      if \<not> IsNotExist (case Stat w cwSettingsPath of Inl err \<Rightarrow> Some err | Inr _ \<Rightarrow> None) then
        (let plan = (case ReadFile w cwSettingsPath of Inl _ \<Rightarrow> [] | Inr content \<Rightarrow> content) in
         case UnmarshalCWSettings w plan of
           Inl err \<Rightarrow> []
         | Inr ignoredPaths \<Rightarrow> ignoredPaths)
      else [])"

definition retrieveRefPathsList :: "world \<Rightarrow> string \<Rightarrow> refPath list" where
  "retrieveRefPathsList w projectPath =
     (let cwRefPathsPath = Join projectPath ''.cw-refpaths.json'' in
      if \<not> IsNotExist (case Stat w cwRefPathsPath of Inl err \<Rightarrow> Some err | Inr _ \<Rightarrow> None) then
        (let plan = (case ReadFile w cwRefPathsPath of Inl _ \<Rightarrow> [] | Inr content \<Rightarrow> content) in
         case UnmarshalRefPaths w plan of
           Inl err \<Rightarrow> []
         | Inr refPaths \<Rightarrow> refPaths)
      else [])"

definition invalidFileReference :: string where
  "invalidFileReference = ''invalid file reference %q: %v'' @ [CHR 0x0A]"

text \<open>The second loop of \<^verbatim>\<open>syncFiles\<close>, over the reference paths. The result of
  \<^verbatim>\<open>walker\<close> is not read.\<close>

fun syncRefPaths :: "world \<Rightarrow> string \<Rightarrow> string \<Rightarrow> string \<Rightarrow> int \<Rightarrow> Connection \<Rightarrow> string list
    \<Rightarrow> refPath list \<Rightarrow> syncVars \<Rightarrow> string \<Rightarrow> (panic \<times> event list) + syncVars \<times> string" where
  "syncRefPaths w projectPath projectID conURL synctime connection cwSettingsIgnoredPathsList
      [] st errText = Inr (st, errText)"
| "syncRefPaths w projectPath projectID conURL synctime connection cwSettingsIgnoredPathsList
      (refPath # cwRefPathsList) st errText =
     (let from = (if \<not> IsAbs (From refPath) then Join projectPath (From refPath) else From refPath) in
      case Stat w from of
        Inl err \<Rightarrow>
          syncRefPaths w projectPath projectID conURL synctime connection
            cwSettingsIgnoredPathsList cwRefPathsList st
            (errText @ Sprintf w invalidFileReference [ArgString from, ArgError (Some err)])
      | Inr info \<Rightarrow>
          if IsDir info then
            syncRefPaths w projectPath projectID conURL synctime connection
              cwSettingsIgnoredPathsList cwRefPathsList st
              (errText @ Sprintf w invalidFileReference [ArgString from, ArgError None])
          else
            (case walker w projectPath projectID connection conURL (Join projectPath (To refPath))
                    \<lparr>Path = from, FileInfo = Some info, IgnoredPaths = cwSettingsIgnoredPathsList,
                     LastSync = (if refPathsChanged st then 0 else synctime)\<rparr> None st of
               Inl p \<Rightarrow> Inl p
             | Inr (_, st1) \<Rightarrow>
                 syncRefPaths w projectPath projectID conURL synctime connection
                   cwSettingsIgnoredPathsList cwRefPathsList st1 errText))"

text \<open>The function literal that \<^verbatim>\<open>syncFiles\<close> passes to \<^verbatim>\<open>filepath.Walk\<close>: it calls
  \<^verbatim>\<open>walker\<close> with the combined ignore list and the time of the last sync.\<close>

definition walkFn :: "world \<Rightarrow> string \<Rightarrow> string \<Rightarrow> Connection \<Rightarrow> string \<Rightarrow> string list \<Rightarrow> int
    \<Rightarrow> string \<Rightarrow> FileInfo option \<Rightarrow> error option \<Rightarrow> syncVars
    \<Rightarrow> (panic \<times> event list) + error option \<times> syncVars" where
  "walkFn w projectPath projectID connection conURL cwCombinedIgnoredPathsList synctime
      path info err =
     walker w projectPath projectID connection conURL path
       \<lparr>Path = path, FileInfo = info, IgnoredPaths = cwCombinedIgnoredPathsList,
        LastSync = synctime\<rparr> err"

definition syncFiles :: "world \<Rightarrow> string \<Rightarrow> string \<Rightarrow> string \<Rightarrow> int \<Rightarrow> Connection \<Rightarrow> event list
    \<Rightarrow> (panic \<times> event list) + (SyncInfo option \<times> ProjectError option) \<times> event list" where
  "syncFiles w projectPath projectID conURL synctime connection tr =
     (let cwSettingsIgnoredPathsList = retrieveIgnoredPathsList w projectPath;
          cwRefPathsList = retrieveRefPathsList w projectPath;
          cwCombinedIgnoredPathsList = cwSettingsIgnoredPathsList @ map To cwRefPathsList
      in
      case Walk w projectPath
             (walkFn w projectPath projectID connection conURL cwCombinedIgnoredPathsList synctime)
             \<lparr>fileList = [], directoryList = [], modifiedList = [], UploadedFileList = [],
              refPathsChanged = False, sent = tr\<rparr> of
        Inl p \<Rightarrow> Inl p
      | Inr (Some err, st) \<Rightarrow>
          let text = Sprintf w (''error walking the path %q: %v'' @ [CHR 0x0A])
                       [ArgString projectPath, ArgError (Some err)]
          in Inr ((None, Some (ProjectError errOpSync (New text) text)), sent st)
      | Inr (None, st) \<Rightarrow>
          (case syncRefPaths w projectPath projectID conURL synctime connection
                  cwSettingsIgnoredPathsList cwRefPathsList st [] of
             Inl p \<Rightarrow> Inl p
           | Inr (st1, errText) \<Rightarrow>
               let syncInfo = \<lparr>fileList = fileList st1, directoryList = directoryList st1,
                                modifiedList = modifiedList st1,
                                UploadedFileList = UploadedFileList st1\<rparr>
               in
               if errText \<noteq> [] then
                 Inr ((Some syncInfo, Some (ProjectError errOpSyncRef (New errText) errText)), sent st1)
               else Inr ((Some syncInfo, None), sent st1)))"

definition completeUpload :: "world \<Rightarrow> string \<Rightarrow> CompleteRequest \<Rightarrow> Connection \<Rightarrow> string \<Rightarrow> event list
    \<Rightarrow> (string \<times> int) \<times> event list" where
  "completeUpload w projectID completeRequest conInfo conURL tr =
     (let uploadEndURL = conURL @ ''/api/v1/projects/'' @ projectID @ ''/upload/end'' in
      case NewRequest w ''POST'' uploadEndURL of
        Some err \<Rightarrow> ((Error w err, 0), tr)
      | None \<Rightarrow>
          let req = \<lparr>Method = ''POST'', URL = uploadEndURL, Body = CompleteBody completeRequest,
                     Header = [(''Content-Type'', ''application/json'')]\<rparr>
          in
          (case DispatchHTTPRequest w tr req conInfo of
             Inl httpSecError \<Rightarrow> ((snd httpSecError, 0), tr @ [Dispatch req])
           | Inr resp \<Rightarrow> ((respStatus resp, respStatusCode resp), tr @ [Dispatch req])))"

definition handleMissingProjectDir :: "world \<Rightarrow> Connection \<Rightarrow> string \<Rightarrow> string \<Rightarrow> event list
    \<Rightarrow> ProjectError option \<times> event list" where
  "handleMissingProjectDir w connection url projectID tr =
     (case NewRequest w ''POST'' (url @ ''/api/v1/projects/'' @ projectID @ ''/missingLocalDir'') of
        Some requestErr \<Rightarrow> (Some (ProjectError errOpRequest requestErr (Error w requestErr)), tr)
      | None \<Rightarrow>
          let req = \<lparr>Method = ''POST'',
                     URL = url @ ''/api/v1/projects/'' @ projectID @ ''/missingLocalDir'',
                     Body = NoBody, Header = []\<rparr>
          in
          (case DispatchHTTPRequest w tr req connection of
             Inl httpSecError \<Rightarrow>
               (Some (ProjectError errOpRequest (fst httpSecError) (snd httpSecError)),
                tr @ [Dispatch req])
           | Inr resp \<Rightarrow>
               if respStatusCode resp \<noteq> 200 then
                 (let respErr = New (Sprintf w ''Error: PFE responded with status code %d''
                                       [ArgInt (respStatusCode resp)])
                  in (Some (ProjectError errOpNotFound respErr (Error w respErr)),
                      tr @ [Dispatch req]))
               else (None, tr @ [Dispatch req])))"

fun existsIn :: "string \<Rightarrow> string list \<Rightarrow> bool" where
  "existsIn value [] = False"
| "existsIn value (item # slice) = (if item = value then True else existsIn value slice)"

text \<open>The loop of \<^verbatim>\<open>findNewFiles\<close>, with \<^verbatim>\<open>newfiles\<close> as it stands before the rest of
  \<^verbatim>\<open>afterfiles\<close> is read. The \<^verbatim>\<open>UploadedFile\<close> that \<^verbatim>\<open>syncFile\<close> returns is dropped.\<close>

fun findNewFilesLoop :: "world \<Rightarrow> string \<Rightarrow> string list \<Rightarrow> string list \<Rightarrow> string \<Rightarrow> Connection
    \<Rightarrow> string \<Rightarrow> string list \<Rightarrow> event list \<Rightarrow> (panic \<times> event list) + string list \<times> event list" where
  "findNewFilesLoop w projectID beforefiles [] projectPath connection conURL newfiles tr =
     Inr (newfiles, tr)"
| "findNewFilesLoop w projectID beforefiles (filename # afterfiles) projectPath connection conURL
      newfiles tr =
     (if \<not> existsIn filename beforefiles then
        (case syncFile w projectID projectPath (Join projectPath filename) connection conURL tr of
           Inl p \<Rightarrow> Inl p
         | Inr (_, tr1) \<Rightarrow>
             findNewFilesLoop w projectID beforefiles afterfiles projectPath connection conURL
               (newfiles @ [filename]) tr1)
      else
        findNewFilesLoop w projectID beforefiles afterfiles projectPath connection conURL
          newfiles tr)"

definition findNewFiles :: "world \<Rightarrow> string \<Rightarrow> string list \<Rightarrow> string list \<Rightarrow> string \<Rightarrow> Connection
    \<Rightarrow> string \<Rightarrow> event list \<Rightarrow> (panic \<times> event list) + string list \<times> event list" where
  "findNewFiles w projectID beforefiles afterfiles projectPath connection conURL tr =
     findNewFilesLoop w projectID beforefiles afterfiles projectPath connection conURL [] tr"

text \<open>\<^verbatim>\<open>SyncProject\<close>. The results are the two results of the source and the events of
  the pass. \<^verbatim>\<open>syncInfo\<close> is a pointer, \<open>None\<close> when \<^verbatim>\<open>syncFiles\<close> returned \<^verbatim>\<open>nil\<close>; reading
  a field of it then panics.\<close>

definition SyncProject :: "world \<Rightarrow> Context
    \<Rightarrow> (panic \<times> event list) + (SyncResponse option \<times> ProjectError option) \<times> event list" where
  "SyncProject w c =
     (let currentSyncTime = Now w sdiv 1000000;
          projectPath = TrimSpace w (StringFlag c ''path'');
          projectID = TrimSpace w (StringFlag c ''id'');
          synctime = IntFlag c ''time''
      in
      case GetConnectionID w projectID of
        Inl projErr \<Rightarrow> Inr ((None, Some projErr), [])
      | Inr conID \<Rightarrow>
      (case GetConnectionByID w conID of
        Inl conInfoErr \<Rightarrow>
          Inr ((None, Some (ProjectError errOpConNotFound (fst conInfoErr) (snd conInfoErr))), [])
      | Inr connection \<Rightarrow>
      (case PFEOriginFromConnection w connection of
        Inl conURLErr \<Rightarrow>
          Inr ((None, Some (ProjectError errOpConNotFound (fst conURLErr) (snd conURLErr))), [])
      | Inr conURL \<Rightarrow>
      if \<not> PathExists w projectPath then
        (case GetProjectFromID w [] connection conURL projectID of
           Inl err \<Rightarrow> Inr ((None, Some err), [GetProject projectID])
         | Inr projectInfo \<Rightarrow>
             let newErr = New (Sprintf w (textProjectPathDoesNotExist w) []) in
             if projectPath \<noteq> LocationOnDisk projectInfo then
               Inr ((None, Some (ProjectError errBadPath newErr (Error w newErr))),
                    [GetProject projectID])
             else
               (case handleMissingProjectDir w connection conURL projectID [GetProject projectID] of
                  (Some err, tr) \<Rightarrow>
                    Inr ((None, Some (ProjectError errBadPath (ErrProject err)
                                        (Error w (ErrProject err)))), tr)
                | (None, tr) \<Rightarrow>
                    Inr ((None, Some (ProjectError errBadPath newErr (Error w newErr))), tr)))
      else
        (case syncFiles w projectPath projectID conURL synctime connection [] of
           Inl p \<Rightarrow> Inl p
         | Inr ((syncInfo, syncErr), tr1) \<Rightarrow>
             (case
                (case GetProjectFileList w tr1 connection conURL projectID of
                   Inl err \<Rightarrow> Inr (syncInfo, tr1 @ [GetFileList projectID])
                 | Inr BeforeFileList \<Rightarrow>
                     (case syncInfo of
                        None \<Rightarrow> Inl (NilPointerDereference, tr1 @ [GetFileList projectID])
                      | Some si \<Rightarrow>
                          (case findNewFiles w projectID BeforeFileList (fileList si) projectPath
                                  connection conURL (tr1 @ [GetFileList projectID]) of
                             Inl p \<Rightarrow> Inl p
                           | Inr (added, tr2) \<Rightarrow>
                               Inr (Some (si\<lparr>modifiedList := modifiedList si @ added\<rparr>), tr2))))
              of
                Inl p \<Rightarrow> Inl p
              | Inr (syncInfo, tr2) \<Rightarrow>
                  (case syncInfo of
                     None \<Rightarrow> Inl (NilPointerDereference, tr2)
                   | Some si \<Rightarrow>
                       (case completeUpload w projectID
                               \<lparr>FileList = fileList si, DirectoryList = directoryList si,
                                ModifiedList = modifiedList si, TimeStamp = currentSyncTime\<rparr>
                               connection conURL tr2 of
                          ((completeStatus, completeStatusCode), tr3) \<Rightarrow>
                            Inr ((Some \<lparr>syncStatus = completeStatus,
                                        syncStatusCode = completeStatusCode,
                                        UploadedFiles = UploadedFileList si\<rparr>, syncErr), tr3))))))))"

section \<open>Notions used in the statements\<close>

text \<open>The first lines of \<^verbatim>\<open>SyncProject\<close>: the path, the project and the time of the last
  sync that the command line gives, and what it means that the connection of the
  project and its URL were found.\<close>

definition projectPathOf :: "world \<Rightarrow> Context \<Rightarrow> string" where
  "projectPathOf w c = TrimSpace w (StringFlag c ''path'')"

definition projectIDOf :: "world \<Rightarrow> Context \<Rightarrow> string" where
  "projectIDOf w c = TrimSpace w (StringFlag c ''id'')"

definition synctimeOf :: "Context \<Rightarrow> int" where
  "synctimeOf c = IntFlag c ''time''"

definition connected :: "world \<Rightarrow> Context \<Rightarrow> Connection \<Rightarrow> string \<Rightarrow> bool" where
  "connected w c connection conURL =
     (case GetConnectionID w (projectIDOf w c) of
        Inl _ \<Rightarrow> False
      | Inr conID \<Rightarrow>
          GetConnectionByID w conID = Inr connection
          \<and> PFEOriginFromConnection w connection = Inr conURL)"

text \<open>The three requests of the pass.\<close>

definition uploadRequest :: "string \<Rightarrow> string \<Rightarrow> FileUploadMsg \<Rightarrow> Request" where
  "uploadRequest conURL projectID msg =
     \<lparr>Method = ''PUT'', URL = conURL @ ''/api/v1/projects/'' @ projectID @ ''/upload'',
      Body = UploadBody msg, Header = [(''Content-Type'', ''application/json'')]\<rparr>"

definition completeRequestOf :: "string \<Rightarrow> string \<Rightarrow> CompleteRequest \<Rightarrow> Request" where
  "completeRequestOf conURL projectID manifest =
     \<lparr>Method = ''POST'', URL = conURL @ ''/api/v1/projects/'' @ projectID @ ''/upload/end'',
      Body = CompleteBody manifest, Header = [(''Content-Type'', ''application/json'')]\<rparr>"

definition missingLocalDirRequest :: "string \<Rightarrow> string \<Rightarrow> Request" where
  "missingLocalDirRequest conURL projectID =
     \<lparr>Method = ''POST'', URL = conURL @ ''/api/v1/projects/'' @ projectID @ ''/missingLocalDir'',
      Body = NoBody, Header = []\<rparr>"

text \<open>An event that sends a completion manifest.\<close>

fun isCompletion :: "event \<Rightarrow> bool" where
  "isCompletion (Dispatch req) = (case Body req of CompleteBody _ \<Rightarrow> True | _ \<Rightarrow> False)"
| "isCompletion _ = False"

text \<open>\<^verbatim>\<open>syncFile\<close> returns (it does not panic) for a path: the path is long enough for
  the slice that cuts the project path off, and if the file can be read the upload
  request can be built.\<close>

definition syncFileReturns :: "world \<Rightarrow> string \<Rightarrow> string \<Rightarrow> string \<Rightarrow> string \<Rightarrow> bool" where
  "syncFileReturns w projectID projectPath conURL path =
     (length projectPath + 1 \<le> length path
      \<and> (case Stat w path of
           Inl _ \<Rightarrow> True
         | Inr _ \<Rightarrow>
             (case ReadFile w path of
                Inl _ \<Rightarrow> True
              | Inr _ \<Rightarrow>
                  NewRequest w ''PUT'' (conURL @ ''/api/v1/projects/'' @ projectID @ ''/upload'') = None)))"


text \<open>One call of \<^verbatim>\<open>syncFile\<close> after the other, for the paths of a list; the results
  are dropped, the events are kept.\<close>

fun uploadEach :: "world \<Rightarrow> string \<Rightarrow> string \<Rightarrow> Connection \<Rightarrow> string \<Rightarrow> string list \<Rightarrow> event list
    \<Rightarrow> (panic \<times> event list) + event list" where
  "uploadEach w projectID projectPath connection conURL [] tr = Inr tr"
| "uploadEach w projectID projectPath connection conURL (path # paths) tr =
     (case syncFile w projectID projectPath path connection conURL tr of
        Inl p \<Rightarrow> Inl p
      | Inr (_, tr1) \<Rightarrow> uploadEach w projectID projectPath connection conURL paths tr1)"

text \<open>The reconciliation of \<^verbatim>\<open>SyncProject\<close> returns: the remote's list of files
  cannot be fetched, or \<^verbatim>\<open>syncFile\<close> returns for every file of \<open>afterfiles\<close> that the
  list does not hold.\<close>

definition reconciliationReturns :: "world \<Rightarrow> string \<Rightarrow> string \<Rightarrow> Connection \<Rightarrow> string
    \<Rightarrow> string list \<Rightarrow> event list \<Rightarrow> bool" where
  "reconciliationReturns w projectID projectPath connection conURL afterfiles tr =
     (case GetProjectFileList w tr connection conURL projectID of
        Inl _ \<Rightarrow> True
      | Inr beforefiles \<Rightarrow>
          (\<forall>f \<in> set afterfiles.
             f \<in> set beforefiles
             \<or> syncFileReturns w projectID projectPath conURL (Join projectPath f)))"

text \<open>A property of the \<^verbatim>\<open>FileInfo\<close> of every entry of a directory tree.\<close>

fun allEntries :: "(FileInfo \<Rightarrow> bool) \<Rightarrow> (string \<times> fsnode) list \<Rightarrow> bool" where
  "allEntries Q [] = True"
| "allEntries Q ((name, LstatError err) # names) = allEntries Q names"
| "allEntries Q ((name, Node info rdErr entries) # names) =
     (Q info \<and> allEntries Q entries \<and> allEntries Q names)"

definition treeAll :: "(FileInfo \<Rightarrow> bool) \<Rightarrow> fsnode \<Rightarrow> bool" where
  "treeAll Q node = allEntries Q [([], node)]"

text \<open>An entry that \<^verbatim>\<open>walker\<close> does not take as modified since \<open>synctime\<close>: a directory, or
  a file whose modification time in milliseconds is not beyond it.\<close>

definition notNewer :: "int \<Rightarrow> FileInfo \<Rightarrow> bool" where
  "notNewer synctime info = (IsDir info \<or> ModTime info sdiv 1000000 \<le> synctime)"

text \<open>For a reference path, the path \<^verbatim>\<open>from\<close> that the second loop of \<^verbatim>\<open>syncFiles\<close> reads
  the file at, and the relative path under which \<^verbatim>\<open>walker\<close> records it.\<close>

definition referenceSource :: "string \<Rightarrow> refPath \<Rightarrow> string" where
  "referenceSource projectPath refPath =
     (if \<not> IsAbs (From refPath) then Join projectPath (From refPath) else From refPath)"

definition referenceTarget :: "string \<Rightarrow> refPath \<Rightarrow> string" where
  "referenceTarget projectPath refPath =
     ToSlash (drop (length projectPath + 1) (Join projectPath (To refPath)))"

text \<open>The captured variables of \<^verbatim>\<open>walker\<close> when \<^verbatim>\<open>syncFiles\<close> starts.\<close>

definition initialVars :: "event list \<Rightarrow> syncVars" where
  "initialVars tr =
     \<lparr>fileList = [], directoryList = [], modifiedList = [], UploadedFileList = [],
      refPathsChanged = False, sent = tr\<rparr>"

text \<open>The captured variables only grow: the lists are extended at their end, the flag
  \<^verbatim>\<open>refPathsChanged\<close> is never reset, and no completion manifest is sent.\<close>

definition grows :: "syncVars \<Rightarrow> syncVars \<Rightarrow> bool" where
  "grows st st' \<longleftrightarrow>
     (\<exists>xs. fileList st' = fileList st @ xs)
     \<and> (\<exists>xs. directoryList st' = directoryList st @ xs)
     \<and> (\<exists>xs. modifiedList st' = modifiedList st @ xs)
     \<and> (\<exists>xs. UploadedFileList st' = UploadedFileList st @ xs)
     \<and> (refPathsChanged st \<longrightarrow> refPathsChanged st')
     \<and> filter isCompletion (sent st') = filter isCompletion (sent st)"

section \<open>Example worlds\<close>

text \<open>Concrete worlds for the examples below. The project is \<open>abc\<close> at \<open>/proj\<close>, its
  remote is at \<open>http://localhost:9090\<close>, the last sync was at 1000 ms. \<open>exampleSprintf\<close>
  renders the verbs \<open>%q\<close>, \<open>%v\<close> and \<open>%d\<close> for the arguments of the examples; a rule file
  is given by a token and the rules it decodes to.\<close>

fun digits :: "nat \<Rightarrow> string" where
  "digits n = (if n < 10 then [char_of (48 + n)] else digits (n div 10) @ [char_of (48 + n mod 10)])"

declare digits.simps [simp del]

definition decimal :: "int \<Rightarrow> string" where
  "decimal i = (if i < 0 then CHR ''-'' # digits (nat (- i)) else digits (nat i))"

fun errorText :: "error \<Rightarrow> string" where
  "errorText ErrBadPattern = ''syntax error in pattern''"
| "errorText SkipDir = ''skip this directory''"
| "errorText (ErrNotExist text) = text"
| "errorText (OSError text) = text"
| "errorText (New text) = text"
| "errorText (ErrProject (ProjectError op err desc)) = desc"

fun formatArg :: "char \<Rightarrow> fmtArg \<Rightarrow> string" where
  "formatArg verb (ArgString s) = (if verb = CHR ''q'' then [CHR 0x22] @ s @ [CHR 0x22] else s)"
| "formatArg verb (ArgError None) = ''<nil>''"
| "formatArg verb (ArgError (Some err)) = errorText err"
| "formatArg verb (ArgInt i) = decimal i"

fun exampleSprintf :: "string \<Rightarrow> fmtArg list \<Rightarrow> string" where
  "exampleSprintf [] args = []"
| "exampleSprintf [c] args = [c]"
| "exampleSprintf (c # verb # rest) args =
     (if c = CHR ''%'' then
        (case args of
           [] \<Rightarrow> c # verb # exampleSprintf rest args
         | a # args' \<Rightarrow> formatArg verb a @ exampleSprintf rest args')
      else c # exampleSprintf (verb # rest) args)"

definition exampleWorld :: "fsnode \<Rightarrow> (string \<times> FileInfo \<times> string) list \<Rightarrow> string list
    \<Rightarrow> refPath list \<Rightarrow> ProjectError + string list
    \<Rightarrow> (event list \<Rightarrow> Request \<Rightarrow> Connection \<Rightarrow> (error \<times> string) + Response) \<Rightarrow> world" where
  "exampleWorld tree files rules refs remote dispatch =
     \<lparr>Now = 1600000000123000000,
      TrimSpace = (\<lambda>s. s),
      Sprintf = exampleSprintf,
      ProjectErrorText = (\<lambda>e. errorText (ErrProject e)),
      zlibBase64 = (\<lambda>s. s),
      textProjectPathDoesNotExist = ''project path does not exist'',
      GetConnectionID = (\<lambda>pid. Inr ''local''),
      GetConnectionByID = (\<lambda>cid. Inr (Connection cid)),
      PFEOriginFromConnection = (\<lambda>con. Inr ''http://localhost:9090''),
      PathExists = (\<lambda>p. p = ''/proj''),
      GetProjectFromID = (\<lambda>tr con url pid. Inr \<lparr>LocationOnDisk = ''/proj''\<rparr>),
      GetProjectFileList = (\<lambda>tr con url pid. remote),
      fsTree = (\<lambda>root. tree),
      Stat = (\<lambda>p. case map_of files p of
                      None \<Rightarrow> Inl (ErrNotExist ''no such file or directory'')
                    | Some (fi, content) \<Rightarrow> Inr fi),
      ReadFile = (\<lambda>p. case map_of files p of
                      None \<Rightarrow> Inl (ErrNotExist ''no such file or directory'')
                    | Some (fi, content) \<Rightarrow> Inr content),
      UnmarshalCWSettings = (\<lambda>plan. if plan = ''settings'' then Inr rules
                                     else Inl (New ''unexpected end of JSON input'')),
      UnmarshalRefPaths = (\<lambda>plan. if plan = ''refpaths'' then Inr refs
                                     else Inl (New ''unexpected end of JSON input'')),
      NewRequest = (\<lambda>method url. None),
      DispatchHTTPRequest = dispatch\<rparr>"

definition okResponse :: "event list \<Rightarrow> Request \<Rightarrow> Connection \<Rightarrow> (error \<times> string) + Response" where
  "okResponse tr req con = Inr (Response ''200 OK'' 200)"

definition fileAt :: "int \<Rightarrow> FileInfo" where
  "fileAt ms = \<lparr>IsDir = False, ModTime = ms * 1000000, Perm = 420\<rparr>"

definition dirAt :: "int \<Rightarrow> FileInfo" where
  "dirAt ms = \<lparr>IsDir = True, ModTime = ms * 1000000, Perm = 493\<rparr>"

definition exampleContext :: Context where
  "exampleContext =
     \<lparr>StringFlag = (\<lambda>k. if k = ''path'' then ''/proj'' else ''abc''), IntFlag = (\<lambda>k. 1000)\<rparr>"

definition exampleURL :: string where
  "exampleURL = ''http://localhost:9090''"

text \<open>A project with a directory that cannot be read.\<close>

definition unreadableWorld :: world where
  "unreadableWorld =
     exampleWorld
       (Node (dirAt 500) None
          [(''a.txt'', Node (fileAt 900) None []),
           (''secret'', Node (dirAt 1500) (Some (OSError ''open /proj/secret: permission denied'')) [])])
       [(''/proj/a.txt'', fileAt 900, ''A'')]
       [] [] (Inr [''a.txt'']) okResponse"

text \<open>A project with two files older than the last sync, one of which the remote does
  not know yet.\<close>

definition importedWorld :: world where
  "importedWorld =
     exampleWorld
       (Node (dirAt 500) None
          [(''a.txt'', Node (fileAt 900) None []), (''c.txt'', Node (fileAt 800) None [])])
       [(''/proj/a.txt'', fileAt 900, ''A''), (''/proj/c.txt'', fileAt 800, ''C'')]
       [] [] (Inr [''a.txt'']) okResponse"






text \<open>A project with the file \<open>[x].js\<close>, which is also the target of a reference.\<close>

definition bracketWorld :: world where
  "bracketWorld =
     exampleWorld
       (Node (dirAt 500) None
          [(''.cw-refpaths.json'', Node (fileAt 900) None []), (''[x].js'', Node (fileAt 900) None [])])
       [(''/proj/.cw-refpaths.json'', fileAt 900, ''refpaths''),
        (''/proj/[x].js'', fileAt 900, ''X''),
        (''/tmp/shared/x.js'', fileAt 900, ''Y'')]
       [] [\<lparr>From = ''/tmp/shared/x.js'', To = ''[x].js''\<rparr>]
       (Inr [''.cw-refpaths.json'', ''[x].js'']) okResponse"

text \<open>A project whose reference rules changed since the last sync; the referenced file
  was last modified at the given time.\<close>

definition referenceWorld :: "int \<Rightarrow> world" where
  "referenceWorld ms =
     exampleWorld
       (Node (dirAt 500) None [(''.cw-refpaths.json'', Node (fileAt 1500) None [])])
       [(''/proj/.cw-refpaths.json'', fileAt 1500, ''refpaths''),
        (''/tmp/shared/lib.js'', fileAt ms, ''L'')]
       [] [\<lparr>From = ''/tmp/shared/lib.js'', To = ''lib/lib.js''\<rparr>]
       (Inr [''.cw-refpaths.json'', ''lib/lib.js'']) okResponse"

text \<open>A project whose settings ignore \<open>build\<close>.\<close>

definition buildTree :: "(string \<times> fsnode) list" where
  "buildTree =
     [(''.cw-settings'', Node (fileAt 900) None []),
      (''build'', Node (dirAt 1500) None
         [(''out.bin'', Node (fileAt 1500) None []),
          (''obj'', Node (dirAt 1500) None [(''m.o'', Node (fileAt 1500) None [])])]),
      (''src'', Node (dirAt 1500) None [(''m.go'', Node (fileAt 1500) None [])])]"

definition buildWorld :: world where
  "buildWorld =
     exampleWorld (Node (dirAt 500) None buildTree)
       [(''/proj/.cw-settings'', fileAt 900, ''settings''),
        (''/proj/build/out.bin'', fileAt 1500, ''O''),
        (''/proj/build/obj/m.o'', fileAt 1500, ''M''),
        (''/proj/src/m.go'', fileAt 1500, ''G'')]
       [''build''] [] (Inr [''.cw-settings'', ''src/m.go'']) okResponse"

text \<open>A project whose directory is gone.\<close>

definition missingDirWorld :: world where
  "missingDirWorld =
     (exampleWorld (LstatError (ErrNotExist ''lstat /proj: no such file or directory''))
        [] [] [] (Inr []) okResponse)
     \<lparr>PathExists := (\<lambda>p. False)\<rparr>"

definition otherPathContext :: Context where
  "otherPathContext =
     \<lparr>StringFlag = (\<lambda>k. if k = ''path'' then ''/elsewhere'' else ''abc''), IntFlag = (\<lambda>k. 1000)\<rparr>"

text \<open>A project with a file changed after the last sync, all of whose files the remote
  knows; and a project without a change since.\<close>

definition changedWorld :: world where
  "changedWorld =
     exampleWorld
       (Node (dirAt 500) None
          [(''a.txt'', Node (fileAt 900) None []), (''b.txt'', Node (fileAt 1500) None [])])
       [(''/proj/a.txt'', fileAt 900, ''A''), (''/proj/b.txt'', fileAt 1500, ''B'')]
       [] [] (Inr [''a.txt'', ''b.txt'']) okResponse"

definition quietTree :: "(string \<times> fsnode) list" where
  "quietTree =
     [(''a.txt'', Node (fileAt 900) None []),
      (''src'', Node (dirAt 1500) None [(''m.go'', Node (fileAt 1000) None [])])]"

definition quietWorld :: world where
  "quietWorld =
     exampleWorld (Node (dirAt 500) None quietTree)
       [(''/proj/a.txt'', fileAt 900, ''A''), (''/proj/src/m.go'', fileAt 1000, ''G'')]
       [] [] (Inr [''a.txt'', ''src/m.go'']) okResponse"

section \<open>Properties of the ignore rules\<close>

lemma ignoreFileOrDirectory_append:
  "ignoreFileOrDirectory name isDir (pre @ rules) =
     (if \<exists>q \<in> set pre. Match (rulePattern q) name \<noteq> (False, None)
      then ignoreFileOrDirectory name isDir pre
      else ignoreFileOrDirectory name isDir rules)"
  by (induction pre) (auto split: prod.splits option.splits)

lemma ignoreFileOrDirectory_iff:
  "ignoreFileOrDirectory name isDir rules \<longleftrightarrow>
     (\<exists>pre r post. rules = pre @ r # post \<and> Match (rulePattern r) name = (True, None)
        \<and> (\<forall>q \<in> set pre. Match (rulePattern q) name = (False, None)))"
proof (induction rules)
  case Nil
  show ?case by simp
next
  case (Cons a rules)
  obtain matched err where m: "Match (rulePattern a) name = (matched, err)"
    by (cases "Match (rulePattern a) name")
  show ?case
  proof (cases "Match (rulePattern a) name = (False, None)")
    case True
    have "(\<exists>pre r post. a # rules = pre @ r # post \<and> Match (rulePattern r) name = (True, None)
            \<and> (\<forall>q \<in> set pre. Match (rulePattern q) name = (False, None)))
        \<longleftrightarrow> (\<exists>pre r post. rules = pre @ r # post \<and> Match (rulePattern r) name = (True, None)
            \<and> (\<forall>q \<in> set pre. Match (rulePattern q) name = (False, None)))"
      (is "?L \<longleftrightarrow> ?R")
    proof
      assume ?L
      then obtain pre r post where h: "a # rules = pre @ r # post"
        "Match (rulePattern r) name = (True, None)"
        "\<forall>q \<in> set pre. Match (rulePattern q) name = (False, None)" by blast
      from h(1,2) True obtain pre' where "pre = a # pre'" by (cases pre) auto
      with h show ?R by auto
    next
      assume ?R
      then obtain pre r post where h: "rules = pre @ r # post"
        "Match (rulePattern r) name = (True, None)"
        "\<forall>q \<in> set pre. Match (rulePattern q) name = (False, None)" by blast
      then have "a # rules = (a # pre) @ r # post"
        "\<forall>q \<in> set (a # pre). Match (rulePattern q) name = (False, None)"
        using True by auto
      with h(2) show ?L by blast
    qed
    with True Cons.IH show ?thesis by simp
  next
    case False
    show ?thesis
    proof (cases "Match (rulePattern a) name = (True, None)")
      case True
      then have "a # rules = [] @ a # rules \<and> Match (rulePattern a) name = (True, None)
          \<and> (\<forall>q \<in> set []. Match (rulePattern q) name = (False, None))" by simp
      then have "\<exists>pre r post. a # rules = pre @ r # post \<and> Match (rulePattern r) name = (True, None)
          \<and> (\<forall>q \<in> set pre. Match (rulePattern q) name = (False, None))" by blast
      with True show ?thesis by simp
    next
      case F2: False
      with False m obtain e where e: "err = Some e" by (cases err; cases matched) auto
      have "\<not> (\<exists>pre r post. a # rules = pre @ r # post \<and> Match (rulePattern r) name = (True, None)
          \<and> (\<forall>q \<in> set pre. Match (rulePattern q) name = (False, None)))"
      proof
        assume "\<exists>pre r post. a # rules = pre @ r # post \<and> Match (rulePattern r) name = (True, None)
          \<and> (\<forall>q \<in> set pre. Match (rulePattern q) name = (False, None))"
        then obtain pre r post where h: "a # rules = pre @ r # post"
          "Match (rulePattern r) name = (True, None)"
          "\<forall>q \<in> set pre. Match (rulePattern q) name = (False, None)" by blast
        show False
        proof (cases pre)
          case Nil
          with h F2 show False by simp
        next
          case (Cons b pre')
          with h False show False by simp
        qed
      qed
      with m e show ?thesis by simp
    qed
  qed
qed

text \<open>
  Claim C2, as amended. For every rule list and relative path,
  \<^verbatim>\<open>ignoreFileOrDirectory\<close> returns true if and only if some rule of the list, cleaned
  and stripped of a leading separator, glob-matches the full relative path and every
  rule before it was matched against the path without error and without success. The
  first matching rule gives true, no matching rule gives false, and a rule whose
  pattern \<^verbatim>\<open>filepath.Match\<close> reports as malformed ends the scan with false: it is never
  fatal, but the rules after it are not consulted.
\<close>

theorem C2_ignore_stops_at_malformed_rule:
  "(ignoreFileOrDirectory name isDir rules \<longleftrightarrow>
      (\<exists>pre r post. rules = pre @ r # post \<and> Match (rulePattern r) name = (True, None)
         \<and> (\<forall>q \<in> set pre. Match (rulePattern q) name = (False, None))))
   \<and> ((\<forall>q \<in> set pre'. Match (rulePattern q) name = (False, None))
        \<and> Match (rulePattern bad) name = (m, Some e)
      \<longrightarrow> \<not> ignoreFileOrDirectory name isDir (pre' @ bad # post'))"
proof
  show "ignoreFileOrDirectory name isDir rules \<longleftrightarrow>
      (\<exists>pre r post. rules = pre @ r # post \<and> Match (rulePattern r) name = (True, None)
         \<and> (\<forall>q \<in> set pre. Match (rulePattern q) name = (False, None)))"
    by (rule ignoreFileOrDirectory_iff)
next
  show "(\<forall>q \<in> set pre'. Match (rulePattern q) name = (False, None))
        \<and> Match (rulePattern bad) name = (m, Some e)
      \<longrightarrow> \<not> ignoreFileOrDirectory name isDir (pre' @ bad # post')"
    by (simp add: ignoreFileOrDirectory_append)
qed

theorem C2_ignore_witness:
  "ignoreFileOrDirectory ''build'' True [''src'', ''/build'', ''['']
   \<and> \<not> ignoreFileOrDirectory ''build'' True [''src'', ''['', ''/build'']"
proof -
  have 1: "Match (rulePattern ''src'') ''build'' = (False, None)" by code_simp
  have 2: "Match (rulePattern ''/build'') ''build'' = (True, None)" by code_simp
  have 3: "Match (rulePattern ''['') ''build'' = (False, Some ErrBadPattern)" by code_simp
  have "[''src'', ''/build'', ''[''] = [''src''] @ ''/build'' # [''['']
      \<and> Match (rulePattern ''/build'') ''build'' = (True, None)
      \<and> (\<forall>q \<in> set [''src'']. Match (rulePattern q) ''build'' = (False, None))"
    using 1 2 by simp
  then have "\<exists>pre r post. [''src'', ''/build'', ''[''] = pre @ r # post
      \<and> Match (rulePattern r) ''build'' = (True, None)
      \<and> (\<forall>q \<in> set pre. Match (rulePattern q) ''build'' = (False, None))"
    by blast
  moreover have "(\<forall>q \<in> set [''src'']. Match (rulePattern q) ''build'' = (False, None))
      \<and> Match (rulePattern ''['') ''build'' = (False, Some ErrBadPattern)"
    using 1 3 by simp
  ultimately show ?thesis
    using C2_ignore_stops_at_malformed_rule [of "''build''" True "[''src'', ''/build'', ''['']"
        "[''src'']" "''[''" False ErrBadPattern "[''/build'']"]
    by simp
qed

text \<open>
  Claim C2 as the specification states it fails: with the rules \<open>[\<close> and \<open>a.txt\<close> the
  second rule glob-matches the path \<open>a.txt\<close>, yet the malformed first rule makes the
  function return false.
\<close>

theorem C2_later_rule_not_consulted:
  "Match (rulePattern ''['') ''a.txt'' = (False, Some ErrBadPattern)
   \<and> Match (rulePattern ''a.txt'') ''a.txt'' = (True, None)
   \<and> ignoreFileOrDirectory ''a.txt'' False [''a.txt'']
   \<and> \<not> ignoreFileOrDirectory ''a.txt'' False [''['', ''a.txt'']"
  by code_simp


section \<open>Properties of the sync pass\<close>

lemma walk_walkNames_invariant:
  assumes step: "\<And>path info err st r st'.
      (case info of None \<Rightarrow> True | Some fi \<Rightarrow> Q fi) \<Longrightarrow> I st \<Longrightarrow> fn path info err st = Inr (r, st') \<Longrightarrow> I st'"
  shows "Q info \<Longrightarrow> allEntries Q names \<Longrightarrow> I st \<Longrightarrow> walk fn path info err names st = Inr (r, st') \<Longrightarrow> I st'"
    and "allEntries Q names \<Longrightarrow> I st \<Longrightarrow> walkNames fn path names st = Inr (r, st') \<Longrightarrow> I st'"
  using step
proof (induction fn path info err names st and fn path names st arbitrary: r st' and r st'
    rule: walk_walkNames.induct)
  case (1 fn path info err names st)
  note step = "1.prems"(5)
  show ?case
  proof (cases "IsDir info")
    case False
    with "1.prems"(4) have "fn path (Some info) None st = Inr (r, st')" by simp
    then show ?thesis using step [of "Some info" st path None r st'] "1.prems"(1,3) by simp
  next
    case True
    with "1.prems"(4) obtain err1 st1 where f: "fn path (Some info) err st = Inr (err1, st1)"
      by (auto split: sum.splits)
    then have i1: "I st1" using step [of "Some info" st path err err1 st1] "1.prems"(1,3) by simp
    show ?thesis
    proof (cases "err \<noteq> None \<or> err1 \<noteq> None")
      case t: True
      with True f "1.prems"(4) have "st' = st1" by (auto split: if_splits)
      with i1 show ?thesis by simp
    next
      case False
      with True f "1.prems"(4) have wn: "walkNames fn path names st1 = Inr (r, st')" by simp
      from "1.IH" [OF _ f refl _ "1.prems"(2) i1 wn step] True False show ?thesis by simp
    qed
  qed
next
  case (2 fn path st)
  then show ?case by simp
next
  case (3 fn path name err names st)
  note step = "3.prems"(4)
  from "3.prems"(3) obtain err1 st1 where f: "fn (Join path name) None (Some err) st = Inr (err1, st1)"
    by (auto split: sum.splits)
  then have i1: "I st1" using step [of None st "Join path name" "Some err" err1 st1] "3.prems"(2) by simp
  show ?case
  proof (cases "err1 \<noteq> None \<and> err1 \<noteq> Some SkipDir")
    case True
    with f "3.prems"(3) have "st' = st1" by (auto split: if_splits)
    with i1 show ?thesis by simp
  next
    case False
    with f "3.prems"(3) have wn: "walkNames fn path names st1 = Inr (r, st')" by auto
    from "3.prems"(1) have "allEntries Q names" by simp
    from "3.IH" [OF f refl False this i1 wn step] show ?thesis .
  qed
next
  case (4 fn path name fileInfo rdErr entries names st)
  note step = "4.prems"(4)
  from "4.prems"(3) obtain err1 st1 where
    f: "walk fn (Join path name) fileInfo rdErr entries st = Inr (err1, st1)"
    by (auto split: sum.splits)
  from "4.prems"(1) have q: "Q fileInfo" "allEntries Q entries" "allEntries Q names" by simp_all
  from "4.IH"(1) [OF q(1) q(2) "4.prems"(2) f step] have i1: "I st1" .
  show ?case
  proof (cases "err1 \<noteq> None \<and> (\<not> IsDir fileInfo \<or> err1 \<noteq> Some SkipDir)")
    case True
    with f "4.prems"(3) have "st' = st1" by (auto split: if_splits)
    with i1 show ?thesis by simp
  next
    case False
    with f "4.prems"(3) have wn: "walkNames fn path names st1 = Inr (r, st')" by auto
    from "4.IH"(2) [OF f refl False q(3) i1 wn step] show ?thesis .
  qed
qed


lemma syncFile_returns_iff:
  "(\<exists>u tr'. syncFile w projectID projectPath path connection conURL tr = Inr (u, tr'))
     \<longleftrightarrow> syncFileReturns w projectID projectPath conURL path"
  by (auto simp: syncFile_def syncFileReturns_def Let_def split: sum.splits option.splits)

lemma syncFile_events:
  assumes "syncFile w projectID projectPath path connection conURL tr = Inr (u, tr')"
  shows "tr' = tr \<or> (\<exists>msg. tr' = tr @ [Dispatch (uploadRequest conURL projectID msg)])"
  using assms
  by (auto simp: syncFile_def uploadRequest_def Let_def split: sum.splits option.splits if_splits)

lemma syncFile_no_completion:
  assumes "syncFile w projectID projectPath path connection conURL tr = Inr (u, tr')"
  shows "filter isCompletion tr' = filter isCompletion tr"
  using syncFile_events [OF assms] by (auto simp: uploadRequest_def)

lemma grows_refl: "grows st st"
  by (simp add: grows_def)

lemma grows_trans: "grows a b \<Longrightarrow> grows b c \<Longrightarrow> grows a c"
  by (auto simp: grows_def)

lemma walker_cases:
  assumes "walker w projectPath projectID connection conURL path info err st = Inr (r, st')"
  obtains
    (passed) "err \<noteq> None" "r = err" "st' = st"
  | (root) "err = None" "path = projectPath" "r = None" "st' = st"
  | (ignoredFile) fi where "err = None" "path \<noteq> projectPath" "length projectPath + 1 \<le> length path"
      "FileInfo info = Some fi" "\<not> IsDir fi"
      "ignoreFileOrDirectory (ToSlash (drop (length projectPath + 1) path)) False (IgnoredPaths info)"
      "r = None" "st' = st"
  | (oldFile) fi where "err = None" "path \<noteq> projectPath" "length projectPath + 1 \<le> length path"
      "FileInfo info = Some fi" "\<not> IsDir fi"
      "\<not> ignoreFileOrDirectory (ToSlash (drop (length projectPath + 1) path)) False (IgnoredPaths info)"
      "\<not> ModTime fi sdiv 1000000 > LastSync info"
      "r = None"
      "st' = st\<lparr>fileList := fileList st @ [ToSlash (drop (length projectPath + 1) path)]\<rparr>"
  | (newFile) fi u tr where "err = None" "path \<noteq> projectPath" "length projectPath + 1 \<le> length path"
      "FileInfo info = Some fi" "\<not> IsDir fi"
      "\<not> ignoreFileOrDirectory (ToSlash (drop (length projectPath + 1) path)) False (IgnoredPaths info)"
      "ModTime fi sdiv 1000000 > LastSync info"
      "syncFile w projectID projectPath (Path info) connection conURL (sent st) = Inr (u, tr)"
      "r = None"
      "st' = st\<lparr>fileList := fileList st @ [ToSlash (drop (length projectPath + 1) path)],
          UploadedFileList := UploadedFileList st @ [u],
          modifiedList := modifiedList st @ [ToSlash (drop (length projectPath + 1) path)],
          refPathsChanged := (if ToSlash (drop (length projectPath + 1) path) = ''.cw-refpaths.json''
                              then True else refPathsChanged st),
          sent := tr\<rparr>"
  | (ignoredDir) fi where "err = None" "path \<noteq> projectPath" "length projectPath + 1 \<le> length path"
      "FileInfo info = Some fi" "IsDir fi"
      "ignoreFileOrDirectory (ToSlash (drop (length projectPath + 1) path)) True (IgnoredPaths info)"
      "r = Some SkipDir" "st' = st"
  | (dir) fi where "err = None" "path \<noteq> projectPath" "length projectPath + 1 \<le> length path"
      "FileInfo info = Some fi" "IsDir fi"
      "\<not> ignoreFileOrDirectory (ToSlash (drop (length projectPath + 1) path)) True (IgnoredPaths info)"
      "r = None"
      "st' = st\<lparr>directoryList := directoryList st @ [ToSlash (drop (length projectPath + 1) path)]\<rparr>"
proof (cases "err \<noteq> None")
  case True
  with assms have "r = err" "st' = st" by (auto simp: walker_def)
  with True show ?thesis by (rule passed)
next
  case e: False
  show ?thesis
  proof (cases "path = projectPath")
    case True
    with assms e have "r = None" "st' = st" by (auto simp: walker_def)
    with e True show ?thesis by (auto intro: root)
  next
    case p: False
    with assms e obtain fi where fi: "FileInfo info = Some fi"
      and len: "length projectPath + 1 \<le> length path"
      by (auto simp: walker_def Let_def split: if_splits option.splits)
    define rel where "rel = ToSlash (drop (length projectPath + 1) path)"
    show ?thesis
    proof (cases "IsDir fi")
      case True
      show ?thesis
      proof (cases "ignoreFileOrDirectory rel True (IgnoredPaths info)")
        case ign: True
        with assms e p fi len True have "r = Some SkipDir" "st' = st"
          by (auto simp: walker_def Let_def rel_def)
        with e p fi len True ign show ?thesis by (auto intro: ignoredDir simp: rel_def)
      next
        case ign: False
        with assms e p fi len True have "r = None"
          "st' = st\<lparr>directoryList := directoryList st @ [rel]\<rparr>"
          by (auto simp: walker_def Let_def rel_def)
        with e p fi len True ign show ?thesis by (auto intro: dir simp: rel_def)
      qed
    next
      case notdir: False
      show ?thesis
      proof (cases "ignoreFileOrDirectory rel False (IgnoredPaths info)")
        case True
        with assms e p fi len notdir have "r = None" "st' = st"
          by (auto simp: walker_def Let_def rel_def)
        with e p fi len notdir True show ?thesis by (auto intro: ignoredFile simp: rel_def)
      next
        case notign: False
        show ?thesis
        proof (cases "ModTime fi sdiv 1000000 > LastSync info")
          case False
          with assms e p fi len notdir notign
          have "r = None" "st' = st\<lparr>fileList := fileList st @ [rel]\<rparr>"
            by (auto simp: walker_def Let_def rel_def)
          with e p fi len notdir notign False show ?thesis
            by (auto intro: oldFile simp: rel_def)
        next
          case True
          with assms e p fi len notdir notign
          obtain u tr where s: "syncFile w projectID projectPath (Path info) connection conURL (sent st) = Inr (u, tr)"
            and r: "r = None"
            and st': "st' = st\<lparr>fileList := fileList st @ [rel],
                UploadedFileList := UploadedFileList st @ [u],
                modifiedList := modifiedList st @ [rel],
                refPathsChanged := (if rel = ''.cw-refpaths.json'' then True else refPathsChanged st),
                sent := tr\<rparr>"
            by (auto simp: walker_def Let_def rel_def split: sum.splits)
          show ?thesis
            by (rule newFile [OF _ p len fi notdir _ _ s r])
              (use e notign True st' in \<open>simp_all add: rel_def\<close>)
        qed
      qed
    qed
  qed
qed

lemma walker_grows:
  assumes "walker w projectPath projectID connection conURL path info err st = Inr (r, st')"
  shows "grows st st'"
  using assms
proof (cases rule: walker_cases)
  case (newFile fi u tr)
  from syncFile_no_completion [OF newFile(8)] newFile(10) show ?thesis
    by (auto simp: grows_def)
qed (auto simp: grows_def)

lemma walker_refPathsChanged:
  assumes "walker w projectPath projectID connection conURL path info err st = Inr (r, st')"
    and "refPathsChanged st \<longleftrightarrow> ''.cw-refpaths.json'' \<in> set (modifiedList st)"
  shows "refPathsChanged st' \<longleftrightarrow> ''.cw-refpaths.json'' \<in> set (modifiedList st')"
  using assms by (cases rule: walker_cases) auto

lemma walker_unmodified:
  assumes "walker w projectPath projectID connection conURL path info err st = Inr (r, st')"
    and "case FileInfo info of None \<Rightarrow> True
         | Some fi \<Rightarrow> IsDir fi \<or> ModTime fi sdiv 1000000 \<le> LastSync info"
  shows "modifiedList st' = modifiedList st \<and> UploadedFileList st' = UploadedFileList st
    \<and> refPathsChanged st' = refPathsChanged st \<and> sent st' = sent st"
  using assms by (cases rule: walker_cases) auto


lemma allEntries_True: "allEntries (\<lambda>_. True) names"
  by (induction "\<lambda>_ :: FileInfo. True" names rule: allEntries.induct) simp_all

lemma Walk_invariant:
  assumes step: "\<And>path info err st r st'.
      (case info of None \<Rightarrow> True | Some fi \<Rightarrow> Q fi) \<Longrightarrow> I st \<Longrightarrow> fn path info err st = Inr (r, st') \<Longrightarrow> I st'"
    and tree: "case fsTree w root of LstatError _ \<Rightarrow> True
               | Node info rdErr names \<Rightarrow> Q info \<and> allEntries Q names"
    and "I st" and "Walk w root fn st = Inr (r, st')"
  shows "I st'"
proof (cases "fsTree w root")
  case (LstatError e)
  with assms(4) obtain r1 where "fn root None (Some e) st = Inr (r1, st')"
    by (auto simp: Walk_def split: sum.splits if_splits)
  with step [of None st root "Some e" r1 st'] assms(3) show ?thesis by simp
next
  case (Node info rdErr names)
  with assms(4) obtain r1 where "walk fn root info rdErr names st = Inr (r1, st')"
    by (auto simp: Walk_def split: sum.splits if_splits)
  with walk_walkNames_invariant(1) [of Q I fn info names st root rdErr r1 st'] step tree Node assms(3)
  show ?thesis by simp
qed

lemma Walk_grows:
  assumes "Walk w root (walkFn w projectPath projectID connection conURL ignored synctime) st = Inr (r, st')"
  shows "grows st st'"
proof -
  have "grows st st'"
  proof (rule Walk_invariant [where Q = "\<lambda>_. True" and I = "grows st", OF _ _ grows_refl assms])
    fix path info err st1 r1 st1'
    assume "grows st st1"
      and "walkFn w projectPath projectID connection conURL ignored synctime path info err st1 = Inr (r1, st1')"
    then show "grows st st1'"
      using walker_grows grows_trans unfolding walkFn_def by blast
  next
    show "case fsTree w root of LstatError _ \<Rightarrow> True
          | Node info rdErr names \<Rightarrow> True \<and> allEntries (\<lambda>_. True) names"
      by (simp add: allEntries_True split: fsnode.splits)
  qed
  then show ?thesis .
qed

lemma Walk_refPathsChanged:
  assumes "Walk w root (walkFn w projectPath projectID connection conURL ignored synctime) st = Inr (r, st')"
    and "refPathsChanged st \<longleftrightarrow> ''.cw-refpaths.json'' \<in> set (modifiedList st)"
  shows "refPathsChanged st' \<longleftrightarrow> ''.cw-refpaths.json'' \<in> set (modifiedList st')"
proof (rule Walk_invariant [where Q = "\<lambda>_. True"
      and I = "\<lambda>s. refPathsChanged s \<longleftrightarrow> ''.cw-refpaths.json'' \<in> set (modifiedList s)", OF _ _ assms(2) assms(1)])
  fix path info err st1 r1 st1'
  assume "refPathsChanged st1 \<longleftrightarrow> ''.cw-refpaths.json'' \<in> set (modifiedList st1)"
    and "walkFn w projectPath projectID connection conURL ignored synctime path info err st1 = Inr (r1, st1')"
  then show "refPathsChanged st1' \<longleftrightarrow> ''.cw-refpaths.json'' \<in> set (modifiedList st1')"
    using walker_refPathsChanged unfolding walkFn_def by blast
next
  show "case fsTree w root of LstatError _ \<Rightarrow> True
        | Node info rdErr names \<Rightarrow> True \<and> allEntries (\<lambda>_. True) names"
    by (simp add: allEntries_True split: fsnode.splits)
qed

lemma syncRefPaths_grows:
  "syncRefPaths w projectPath projectID conURL synctime connection ignored refs st errText
     = Inr (st', errText') \<Longrightarrow> grows st st'"
proof (induction refs arbitrary: st errText)
  case Nil
  then show ?case by (simp add: grows_refl)
next
  case (Cons r refs)
  define src where "src = (if \<not> IsAbs (From r) then Join projectPath (From r) else From r)"
  show ?case
  proof (cases "Stat w src")
    case (Inl e)
    with Cons.prems have "syncRefPaths w projectPath projectID conURL synctime connection ignored refs st
        (errText @ Sprintf w invalidFileReference [ArgString src, ArgError (Some e)]) = Inr (st', errText')"
      by (simp add: src_def Let_def)
    then show ?thesis by (rule Cons.IH)
  next
    case (Inr info)
    show ?thesis
    proof (cases "IsDir info")
      case True
      with Inr Cons.prems have "syncRefPaths w projectPath projectID conURL synctime connection ignored refs st
          (errText @ Sprintf w invalidFileReference [ArgString src, ArgError None]) = Inr (st', errText')"
        by (simp add: src_def Let_def)
      then show ?thesis by (rule Cons.IH)
    next
      case False
      with Inr Cons.prems obtain r1 st1 where
        w1: "walker w projectPath projectID connection conURL (Join projectPath (To r))
              \<lparr>Path = src, FileInfo = Some info, IgnoredPaths = ignored,
               LastSync = (if refPathsChanged st then 0 else synctime)\<rparr> None st = Inr (r1, st1)"
        and rest: "syncRefPaths w projectPath projectID conURL synctime connection ignored refs st1 errText
            = Inr (st', errText')"
        by (auto simp: src_def Let_def split: sum.splits)
      from walker_grows [OF w1] Cons.IH [OF rest] show ?thesis by (rule grows_trans)
    qed
  qed
qed

lemma syncFiles_Some:
  assumes "syncFiles w projectPath projectID conURL synctime connection tr = Inr ((Some si, syncErr), tr')"
  obtains st1 st2 errText where
    "Walk w projectPath
       (walkFn w projectPath projectID connection conURL
          (retrieveIgnoredPathsList w projectPath @ map To (retrieveRefPathsList w projectPath)) synctime)
       \<lparr>fileList = [], directoryList = [], modifiedList = [], UploadedFileList = [],
        refPathsChanged = False, sent = tr\<rparr> = Inr (None, st1)"
    "syncRefPaths w projectPath projectID conURL synctime connection
       (retrieveIgnoredPathsList w projectPath) (retrieveRefPathsList w projectPath) st1 [] = Inr (st2, errText)"
    "si = \<lparr>fileList = fileList st2, directoryList = directoryList st2,
           modifiedList = modifiedList st2, UploadedFileList = UploadedFileList st2\<rparr>"
    "tr' = sent st2"
  using assms
  by (auto simp: syncFiles_def Let_def split: sum.splits option.splits prod.splits if_splits)

lemma syncFiles_no_completion:
  assumes "syncFiles w projectPath projectID conURL synctime connection tr = Inr ((Some si, syncErr), tr')"
  shows "filter isCompletion tr' = filter isCompletion tr"
  using assms
proof (cases rule: syncFiles_Some)
  case (1 st1 st2 errText)
  from Walk_grows [OF 1(1)] syncRefPaths_grows [OF 1(2)] 1(4) show ?thesis
    by (simp add: grows_def)
qed

lemma existsIn_iff: "existsIn v xs \<longleftrightarrow> v \<in> set xs"
  by (induction xs) auto

lemma findNewFilesLoop_eq:
  "findNewFilesLoop w projectID beforefiles afterfiles projectPath connection conURL newfiles tr =
     (case uploadEach w projectID projectPath connection conURL
             (map (Join projectPath) (filter (\<lambda>f. f \<notin> set beforefiles) afterfiles)) tr of
        Inl p \<Rightarrow> Inl p
      | Inr tr' \<Rightarrow> Inr (newfiles @ filter (\<lambda>f. f \<notin> set beforefiles) afterfiles, tr'))"
  by (induction afterfiles arbitrary: newfiles tr) (auto simp: existsIn_iff split: sum.splits)

lemma uploadEach_no_completion:
  "uploadEach w projectID projectPath connection conURL paths tr = Inr tr'
     \<Longrightarrow> filter isCompletion tr' = filter isCompletion tr"
proof (induction paths arbitrary: tr)
  case Nil
  then show ?case by simp
next
  case (Cons p paths)
  then obtain u tr1 where s: "syncFile w projectID projectPath p connection conURL tr = Inr (u, tr1)"
    and r: "uploadEach w projectID projectPath connection conURL paths tr1 = Inr tr'"
    by (auto split: sum.splits)
  from Cons.IH [OF r] syncFile_no_completion [OF s] show ?case by simp
qed

lemma uploadEach_returns:
  "\<forall>p \<in> set paths. syncFileReturns w projectID projectPath conURL p
     \<Longrightarrow> \<exists>tr'. uploadEach w projectID projectPath connection conURL paths tr = Inr tr'"
proof (induction paths arbitrary: tr)
  case Nil
  then show ?case by simp
next
  case (Cons p paths)
  then obtain u tr1 where "syncFile w projectID projectPath p connection conURL tr = Inr (u, tr1)"
    using syncFile_returns_iff [of w projectID projectPath p connection conURL tr] by auto
  with Cons show ?case by simp
qed


lemma SyncProject_after_walk:
  assumes "connected w c connection conURL"
    and "PathExists w (projectPathOf w c)"
    and "syncFiles w (projectPathOf w c) (projectIDOf w c) conURL (synctimeOf c) connection []
           = Inr ((syncInfo, syncErr), tr1)"
  shows "SyncProject w c =
     (case
        (case GetProjectFileList w tr1 connection conURL (projectIDOf w c) of
           Inl err \<Rightarrow> Inr (syncInfo, tr1 @ [GetFileList (projectIDOf w c)])
         | Inr BeforeFileList \<Rightarrow>
             (case syncInfo of
                None \<Rightarrow> Inl (NilPointerDereference, tr1 @ [GetFileList (projectIDOf w c)])
              | Some si \<Rightarrow>
                  (case findNewFiles w (projectIDOf w c) BeforeFileList (fileList si) (projectPathOf w c)
                          connection conURL (tr1 @ [GetFileList (projectIDOf w c)]) of
                     Inl p \<Rightarrow> Inl p
                   | Inr (added, tr2) \<Rightarrow>
                       Inr (Some (si\<lparr>modifiedList := modifiedList si @ added\<rparr>), tr2))))
      of
        Inl p \<Rightarrow> Inl p
      | Inr (syncInfo, tr2) \<Rightarrow>
          (case syncInfo of
             None \<Rightarrow> Inl (NilPointerDereference, tr2)
           | Some si \<Rightarrow>
               (case completeUpload w (projectIDOf w c)
                       \<lparr>FileList = fileList si, DirectoryList = directoryList si,
                        ModifiedList = modifiedList si, TimeStamp = Now w sdiv 1000000\<rparr>
                       connection conURL tr2 of
                  ((completeStatus, completeStatusCode), tr3) \<Rightarrow>
                    Inr ((Some \<lparr>syncStatus = completeStatus,
                                syncStatusCode = completeStatusCode,
                                UploadedFiles = UploadedFileList si\<rparr>, syncErr), tr3))))"
proof -
  from assms(1) obtain conID where
    "GetConnectionID w (TrimSpace w (StringFlag c ''id'')) = Inr conID"
    "GetConnectionByID w conID = Inr connection"
    "PFEOriginFromConnection w connection = Inr conURL"
    by (auto simp: connected_def projectIDOf_def split: sum.splits)
  with assms(2,3) show ?thesis
    unfolding projectPathOf_def projectIDOf_def synctimeOf_def SyncProject_def Let_def
    by simp
qed


lemma SyncProject_traversal_error:
  assumes "connected w c connection conURL"
    and "PathExists w (projectPathOf w c)"
    and "syncFiles w (projectPathOf w c) (projectIDOf w c) conURL (synctimeOf c) connection []
           = Inr ((None, syncErr), tr1)"
  shows "SyncProject w c = Inl (NilPointerDereference, tr1 @ [GetFileList (projectIDOf w c)])"
  by (simp add: SyncProject_after_walk [OF assms] split: sum.splits)

text \<open>
  Claim C1. When the walk of the project tree meets a directory that cannot be read,
  \<^verbatim>\<open>syncFiles\<close> returns no \<^verbatim>\<open>SyncInfo\<close> and the fatal error tagged \<^verbatim>\<open>errOpSync\<close>.
  \<^verbatim>\<open>SyncProject\<close> does not look at that error before it goes on: it fetches the
  remote's list of files and then reads \<^verbatim>\<open>syncInfo.fileList\<close> through the nil pointer.
  The pass ends in a panic: no completion manifest is sent, and the fatal error is never
  returned. Evaluated here in the world with the unreadable directory \<open>secret\<close>.
\<close>

theorem C1_traversal_error_panics:
  "syncFiles unreadableWorld ''/proj'' ''abc'' exampleURL 1000 (Connection ''local'') [] =
     Inr ((None,
           Some (ProjectError errOpSync
             (New (exampleSprintf (''error walking the path %q: %v'' @ [CHR 0x0A])
                [ArgString ''/proj'', ArgError (Some (OSError ''open /proj/secret: permission denied''))]))
             (exampleSprintf (''error walking the path %q: %v'' @ [CHR 0x0A])
                [ArgString ''/proj'', ArgError (Some (OSError ''open /proj/secret: permission denied''))]))),
          [])
   \<and> SyncProject unreadableWorld exampleContext = Inl (NilPointerDereference, [GetFileList ''abc''])"
  by code_simp

text \<open>
  Claim C8. The connection of the project is found, the local project path does not
  exist, and the remote returns its record of the project. If the path differs from the
  recorded location on disk, the pass returns the fatal error tagged \<^verbatim>\<open>errBadPath\<close> after
  the one call that fetched the record: no notification is sent. If the path is the
  recorded location, the pass returns a fatal error tagged \<^verbatim>\<open>errBadPath\<close> and has sent
  exactly the missing-directory notification (whenever \<^verbatim>\<open>http.NewRequest\<close> can build the
  request, which fails only for a malformed URL). In both cases the results are given
  in full: they do not depend on the file system, no file is walked or uploaded.
\<close>

theorem C8_missing_project_directory:
  assumes "connected w c connection conURL"
    and "\<not> PathExists w (projectPathOf w c)"
    and "GetProjectFromID w [] connection conURL (projectIDOf w c) = Inr projectInfo"
  shows "(projectPathOf w c \<noteq> LocationOnDisk projectInfo \<longrightarrow>
            SyncProject w c =
              Inr ((None, Some (ProjectError errBadPath
                      (New (Sprintf w (textProjectPathDoesNotExist w) []))
                      (Sprintf w (textProjectPathDoesNotExist w) []))),
                   [GetProject (projectIDOf w c)]))
       \<and> (projectPathOf w c = LocationOnDisk projectInfo \<longrightarrow>
            (\<exists>err desc. SyncProject w c =
              Inr ((None, Some (ProjectError errBadPath err desc)),
                   GetProject (projectIDOf w c) #
                   (if NewRequest w ''POST''
                         (conURL @ ''/api/v1/projects/'' @ projectIDOf w c @ ''/missingLocalDir'') = None
                    then [Dispatch (missingLocalDirRequest conURL (projectIDOf w c))] else []))))"
proof -
  from assms(1) obtain conID where c:
    "GetConnectionID w (TrimSpace w (StringFlag c ''id'')) = Inr conID"
    "GetConnectionByID w conID = Inr connection"
    "PFEOriginFromConnection w connection = Inr conURL"
    by (auto simp: connected_def projectIDOf_def split: sum.splits)
  have h: "\<exists>err. handleMissingProjectDir w connection conURL (projectIDOf w c) [GetProject (projectIDOf w c)] =
      (err, GetProject (projectIDOf w c) #
            (if NewRequest w ''POST''
                  (conURL @ ''/api/v1/projects/'' @ projectIDOf w c @ ''/missingLocalDir'') = None
             then [Dispatch (missingLocalDirRequest conURL (projectIDOf w c))] else []))"
    by (auto simp: handleMissingProjectDir_def missingLocalDirRequest_def Let_def
        split: option.splits sum.splits)
  from c assms(2,3) h show ?thesis
    unfolding projectPathOf_def projectIDOf_def SyncProject_def Let_def
    by (auto split: option.splits)
qed

theorem C8_missing_directory_witness:
  "connected missingDirWorld exampleContext (Connection ''local'') exampleURL
   \<and> \<not> PathExists missingDirWorld (projectPathOf missingDirWorld exampleContext)
   \<and> connected missingDirWorld otherPathContext (Connection ''local'') exampleURL
   \<and> \<not> PathExists missingDirWorld (projectPathOf missingDirWorld otherPathContext)
   \<and> SyncProject missingDirWorld otherPathContext =
       Inr ((None, Some (ProjectError errBadPath (New ''project path does not exist'')
                           ''project path does not exist'')),
            [GetProject ''abc''])
   \<and> (\<exists>err desc. SyncProject missingDirWorld exampleContext =
       Inr ((None, Some (ProjectError errBadPath err desc)),
            [GetProject ''abc'', Dispatch (missingLocalDirRequest exampleURL ''abc'')]))"
proof -
  have c1: "connected missingDirWorld exampleContext (Connection ''local'') exampleURL" by code_simp
  have e1: "\<not> PathExists missingDirWorld (projectPathOf missingDirWorld exampleContext)" by code_simp
  have g1: "GetProjectFromID missingDirWorld [] (Connection ''local'') exampleURL
      (projectIDOf missingDirWorld exampleContext) = Inr \<lparr>LocationOnDisk = ''/proj''\<rparr>" by code_simp
  have c2: "connected missingDirWorld otherPathContext (Connection ''local'') exampleURL" by code_simp
  have e2: "\<not> PathExists missingDirWorld (projectPathOf missingDirWorld otherPathContext)" by code_simp
  have g2: "GetProjectFromID missingDirWorld [] (Connection ''local'') exampleURL
      (projectIDOf missingDirWorld otherPathContext) = Inr \<lparr>LocationOnDisk = ''/proj''\<rparr>" by code_simp
  have v: "projectPathOf missingDirWorld exampleContext = ''/proj''"
    "projectPathOf missingDirWorld otherPathContext = ''/elsewhere''"
    "projectIDOf missingDirWorld exampleContext = ''abc''"
    "projectIDOf missingDirWorld otherPathContext = ''abc''"
    "Sprintf missingDirWorld (textProjectPathDoesNotExist missingDirWorld) [] = ''project path does not exist''"
    "NewRequest missingDirWorld ''POST''
       (exampleURL @ ''/api/v1/projects/'' @ ''abc'' @ ''/missingLocalDir'') = None"
    by code_simp+
  from C8_missing_project_directory [OF c1 e1 g1] C8_missing_project_directory [OF c2 e2 g2]
    c1 e1 c2 e2 v show ?thesis
    by simp
qed


lemma findNewFiles_eq:
  "findNewFiles w projectID beforefiles afterfiles projectPath connection conURL tr =
     (case uploadEach w projectID projectPath connection conURL
             (map (Join projectPath) (filter (\<lambda>f. f \<notin> set beforefiles) afterfiles)) tr of
        Inl p \<Rightarrow> Inl p
      | Inr tr' \<Rightarrow> Inr (filter (\<lambda>f. f \<notin> set beforefiles) afterfiles, tr'))"
  by (simp add: findNewFiles_def findNewFilesLoop_eq split: sum.splits)









lemma completeUpload_result:
  "\<exists>status code. completeUpload w projectID manifest connection conURL tr =
     ((status, code),
      tr @ (if NewRequest w ''POST'' (conURL @ ''/api/v1/projects/'' @ projectID @ ''/upload/end'') = None
            then [Dispatch (completeRequestOf conURL projectID manifest)] else []))"
  by (auto simp: completeUpload_def completeRequestOf_def Let_def split: option.splits sum.splits)

lemma SyncProject_completes:
  assumes con: "connected w c connection conURL"
    and ex: "PathExists w (projectPathOf w c)"
    and walk: "syncFiles w (projectPathOf w c) (projectIDOf w c) conURL (synctimeOf c) connection []
           = Inr ((Some si, syncErr), tr1)"
    and rr: "reconciliationReturns w (projectIDOf w c) (projectPathOf w c) connection conURL (fileList si) tr1"
  shows "\<exists>status code added tr2.
      SyncProject w c =
        Inr ((Some \<lparr>syncStatus = status, syncStatusCode = code, UploadedFiles = UploadedFileList si\<rparr>,
              syncErr),
             tr2 @ (if NewRequest w ''POST''
                        (conURL @ ''/api/v1/projects/'' @ projectIDOf w c @ ''/upload/end'') = None
                    then [Dispatch (completeRequestOf conURL (projectIDOf w c)
                            \<lparr>FileList = fileList si, DirectoryList = directoryList si,
                             ModifiedList = modifiedList si @ added,
                             TimeStamp = Now w sdiv 1000000\<rparr>)]
                    else []))
      \<and> filter isCompletion tr2 = []"
proof -
  from syncFiles_no_completion [OF walk] have n1: "filter isCompletion tr1 = []" by simp
  show ?thesis
  proof (cases "GetProjectFileList w tr1 connection conURL (projectIDOf w c)")
    case (Inl e)
    obtain status code where cu: "completeUpload w (projectIDOf w c)
        \<lparr>FileList = fileList si, DirectoryList = directoryList si,
         ModifiedList = modifiedList si @ [], TimeStamp = Now w sdiv 1000000\<rparr> connection conURL
        (tr1 @ [GetFileList (projectIDOf w c)]) =
        ((status, code), (tr1 @ [GetFileList (projectIDOf w c)]) @
          (if NewRequest w ''POST'' (conURL @ ''/api/v1/projects/'' @ projectIDOf w c @ ''/upload/end'') = None
           then [Dispatch (completeRequestOf conURL (projectIDOf w c)
                   \<lparr>FileList = fileList si, DirectoryList = directoryList si,
                    ModifiedList = modifiedList si @ [], TimeStamp = Now w sdiv 1000000\<rparr>)]
           else []))"
      using completeUpload_result by blast
    have "SyncProject w c =
        Inr ((Some \<lparr>syncStatus = status, syncStatusCode = code, UploadedFiles = UploadedFileList si\<rparr>,
              syncErr),
             (tr1 @ [GetFileList (projectIDOf w c)]) @
              (if NewRequest w ''POST'' (conURL @ ''/api/v1/projects/'' @ projectIDOf w c @ ''/upload/end'') = None
               then [Dispatch (completeRequestOf conURL (projectIDOf w c)
                       \<lparr>FileList = fileList si, DirectoryList = directoryList si,
                        ModifiedList = modifiedList si @ [], TimeStamp = Now w sdiv 1000000\<rparr>)]
               else []))"
      using cu Inl by (simp add: SyncProject_after_walk [OF con ex walk])
    moreover have "filter isCompletion (tr1 @ [GetFileList (projectIDOf w c)]) = []"
      using n1 by simp
    ultimately show ?thesis by blast
  next
    case (Inr before)
    define added where "added = filter (\<lambda>f. f \<notin> set before) (fileList si)"
    from rr Inr have "\<forall>p \<in> set (map (Join (projectPathOf w c)) added).
        syncFileReturns w (projectIDOf w c) (projectPathOf w c) conURL p"
      by (auto simp: reconciliationReturns_def added_def)
    from uploadEach_returns [OF this] obtain tr2 where
      u: "uploadEach w (projectIDOf w c) (projectPathOf w c) connection conURL
            (map (Join (projectPathOf w c)) added) (tr1 @ [GetFileList (projectIDOf w c)]) = Inr tr2"
      by blast
    from uploadEach_no_completion [OF u] n1 have n2: "filter isCompletion tr2 = []" by simp
    obtain status code where cu: "completeUpload w (projectIDOf w c)
        \<lparr>FileList = fileList si, DirectoryList = directoryList si,
         ModifiedList = modifiedList si @ added, TimeStamp = Now w sdiv 1000000\<rparr> connection conURL tr2 =
        ((status, code), tr2 @
          (if NewRequest w ''POST'' (conURL @ ''/api/v1/projects/'' @ projectIDOf w c @ ''/upload/end'') = None
           then [Dispatch (completeRequestOf conURL (projectIDOf w c)
                   \<lparr>FileList = fileList si, DirectoryList = directoryList si,
                    ModifiedList = modifiedList si @ added, TimeStamp = Now w sdiv 1000000\<rparr>)]
           else []))"
      using completeUpload_result by blast
    have "SyncProject w c =
        Inr ((Some \<lparr>syncStatus = status, syncStatusCode = code, UploadedFiles = UploadedFileList si\<rparr>,
              syncErr),
             tr2 @
              (if NewRequest w ''POST'' (conURL @ ''/api/v1/projects/'' @ projectIDOf w c @ ''/upload/end'') = None
               then [Dispatch (completeRequestOf conURL (projectIDOf w c)
                       \<lparr>FileList = fileList si, DirectoryList = directoryList si,
                        ModifiedList = modifiedList si @ added, TimeStamp = Now w sdiv 1000000\<rparr>)]
               else []))"
      using cu Inr u by (simp add: SyncProject_after_walk [OF con ex walk] findNewFiles_eq added_def)
    with n2 show ?thesis by blast
  qed
qed

lemma SyncProject_uploaded_files:
  assumes con: "connected w c connection conURL"
    and ex: "PathExists w (projectPathOf w c)"
    and walk: "syncFiles w (projectPathOf w c) (projectIDOf w c) conURL (synctimeOf c) connection []
           = Inr ((Some si, syncErr), tr1)"
    and ret: "SyncProject w c = Inr ((resp, err), tr)"
  shows "\<exists>status code. resp = Some \<lparr>syncStatus = status, syncStatusCode = code,
      UploadedFiles = UploadedFileList si\<rparr>"
  using ret unfolding SyncProject_after_walk [OF con ex walk] findNewFiles_eq
  by (auto split: sum.splits prod.splits)






text \<open>
  Claim C10. The connection is found, the project path exists, and both walk phases have
  returned the \<^verbatim>\<open>SyncInfo\<close> \<open>si\<close>. Whenever \<^verbatim>\<open>SyncProject\<close> then returns, it returns a
  response whose \<open>UploadedFiles\<close> is the \<open>UploadedFileList\<close> of \<open>si\<close>, the outcomes of the
  uploads of the walk phases: the uploads of the reconciliation add nothing to it. It
  returns such a response whenever the reconciliation returns.
\<close>

theorem C10_reconciliation_outcomes_dropped:
  assumes "connected w c connection conURL"
    and "PathExists w (projectPathOf w c)"
    and "syncFiles w (projectPathOf w c) (projectIDOf w c) conURL (synctimeOf c) connection []
           = Inr ((Some si, syncErr), tr1)"
  shows "(SyncProject w c = Inr ((resp, err), events)
          \<longrightarrow> (\<exists>status code. resp = Some \<lparr>syncStatus = status, syncStatusCode = code,
                  UploadedFiles = UploadedFileList si\<rparr>))
       \<and> (reconciliationReturns w (projectIDOf w c) (projectPathOf w c) connection conURL (fileList si) tr1
          \<longrightarrow> (\<exists>status code events'.
                SyncProject w c =
                  Inr ((Some \<lparr>syncStatus = status, syncStatusCode = code,
                              UploadedFiles = UploadedFileList si\<rparr>, syncErr), events')))"
proof (intro conjI impI)
  assume "SyncProject w c = Inr ((resp, err), events)"
  from SyncProject_uploaded_files [OF assms this]
  show "\<exists>status code. resp = Some \<lparr>syncStatus = status, syncStatusCode = code,
      UploadedFiles = UploadedFileList si\<rparr>" .
next
  assume "reconciliationReturns w (projectIDOf w c) (projectPathOf w c) connection conURL (fileList si) tr1"
  from SyncProject_completes [OF assms this]
  show "\<exists>status code events'.
      SyncProject w c =
        Inr ((Some \<lparr>syncStatus = status, syncStatusCode = code,
                    UploadedFiles = UploadedFileList si\<rparr>, syncErr), events')"
    by blast
qed



theorem C10_reconciliation_witness:
  "connected importedWorld exampleContext (Connection ''local'') exampleURL
   \<and> PathExists importedWorld (projectPathOf importedWorld exampleContext)
   \<and> syncFiles importedWorld (projectPathOf importedWorld exampleContext)
        (projectIDOf importedWorld exampleContext) exampleURL (synctimeOf exampleContext)
        (Connection ''local'') [] =
       Inr ((Some \<lparr>fileList = [''a.txt'', ''c.txt''], directoryList = [], modifiedList = [],
                   UploadedFileList = []\<rparr>, None), [])
   \<and> SyncProject importedWorld exampleContext =
       Inr ((Some \<lparr>syncStatus = ''200 OK'', syncStatusCode = 200, UploadedFiles = []\<rparr>, None),
            [GetFileList ''abc'',
             Dispatch (uploadRequest exampleURL ''abc''
               \<lparr>IsDirectory = False, Mode = 420, RelativePath = ''c.txt'', Message = ''C''\<rparr>),
             Dispatch (completeRequestOf exampleURL ''abc''
               \<lparr>FileList = [''a.txt'', ''c.txt''], DirectoryList = [], ModifiedList = [''c.txt''],
                TimeStamp = 1600000000123\<rparr>)])
   \<and> (\<exists>status code.
        Some \<lparr>syncStatus = ''200 OK'', syncStatusCode = 200, UploadedFiles = []\<rparr> =
        Some \<lparr>syncStatus = status, syncStatusCode = code,
              UploadedFiles = UploadedFileList
                \<lparr>fileList = [''a.txt'', ''c.txt''], directoryList = [], modifiedList = [],
                 UploadedFileList = []\<rparr>\<rparr>)"
proof -
  have c1: "connected importedWorld exampleContext (Connection ''local'') exampleURL" by code_simp
  have e1: "PathExists importedWorld (projectPathOf importedWorld exampleContext)" by code_simp
  have s1: "syncFiles importedWorld (projectPathOf importedWorld exampleContext)
      (projectIDOf importedWorld exampleContext) exampleURL (synctimeOf exampleContext)
      (Connection ''local'') [] =
      Inr ((Some \<lparr>fileList = [''a.txt'', ''c.txt''], directoryList = [], modifiedList = [],
                  UploadedFileList = []\<rparr>, None), [])"
    by code_simp
  have r: "SyncProject importedWorld exampleContext =
      Inr ((Some \<lparr>syncStatus = ''200 OK'', syncStatusCode = 200, UploadedFiles = []\<rparr>, None),
           [GetFileList ''abc'',
            Dispatch (uploadRequest exampleURL ''abc''
              \<lparr>IsDirectory = False, Mode = 420, RelativePath = ''c.txt'', Message = ''C''\<rparr>),
            Dispatch (completeRequestOf exampleURL ''abc''
              \<lparr>FileList = [''a.txt'', ''c.txt''], DirectoryList = [], ModifiedList = [''c.txt''],
               TimeStamp = 1600000000123\<rparr>)])"
    by code_simp
  from C10_reconciliation_outcomes_dropped [OF c1 e1 s1] r
  have "\<exists>status code.
      Some \<lparr>syncStatus = ''200 OK'', syncStatusCode = 200, UploadedFiles = []\<rparr> =
      Some \<lparr>syncStatus = status, syncStatusCode = code,
            UploadedFiles = UploadedFileList
              \<lparr>fileList = [''a.txt'', ''c.txt''], directoryList = [], modifiedList = [],
               UploadedFileList = []\<rparr>\<rparr>"
    by blast
  with c1 e1 s1 r show ?thesis by blast
qed


text \<open>
  Claim C7. In the walk of the project tree, a directory below the project path whose
  relative path is ignored by the combined ignore list is skipped with its whole
  subtree: \<^verbatim>\<open>walker\<close> returns \<^verbatim>\<open>filepath.SkipDir\<close> for it and leaves the file list, the
  directory list, the modified list and every other captured variable as they were,
  whatever the entries of the directory are; the walk of the parent then goes on with
  the next name exactly as if the directory were not there. So neither the directory
  nor any descendant of it is recorded in a list. (When the directory cannot be read,
  \<^verbatim>\<open>walker\<close> returns the error of the read, again without recording anything.)
\<close>

theorem C7_ignored_directory_is_pruned:
  assumes "IsDir info"
    and "Join dir name \<noteq> projectPath"
    and "length projectPath + 1 \<le> length (Join dir name)"
    and "ignoreFileOrDirectory (ToSlash (drop (length projectPath + 1) (Join dir name))) True ignored"
  shows "walk (walkFn w projectPath projectID connection conURL ignored synctime)
           (Join dir name) info None entries st = Inr (Some SkipDir, st)
       \<and> walkNames (walkFn w projectPath projectID connection conURL ignored synctime)
           dir ((name, Node info None entries) # names) st
         = walkNames (walkFn w projectPath projectID connection conURL ignored synctime)
             dir names st
       \<and> walk (walkFn w projectPath projectID connection conURL ignored synctime)
           (Join dir name) info (Some err) entries st = Inr (Some err, st)"
proof -
  have 1: "walkFn w projectPath projectID connection conURL ignored synctime
      (Join dir name) (Some info) None st = Inr (Some SkipDir, st)"
    using assms by (simp add: walkFn_def walker_def Let_def)
  have 2: "walkFn w projectPath projectID connection conURL ignored synctime
      (Join dir name) (Some info) (Some err) st = Inr (Some err, st)"
    by (simp add: walkFn_def walker_def)
  from 1 2 assms(1) show ?thesis by simp
qed

theorem C7_ignored_directory_witness:
  "IsDir (dirAt 1500)
   \<and> Join ''/proj'' ''build'' \<noteq> ''/proj''
   \<and> length ''/proj'' + 1 \<le> length (Join ''/proj'' ''build'')
   \<and> ignoreFileOrDirectory (ToSlash (drop (length ''/proj'' + 1) (Join ''/proj'' ''build''))) True [''build'']
   \<and> walkNames (walkFn buildWorld ''/proj'' ''abc'' (Connection ''local'') exampleURL [''build''] 1000)
        ''/proj''
        [(''build'', Node (dirAt 1500) None
            [(''out.bin'', Node (fileAt 1500) None []),
             (''obj'', Node (dirAt 1500) None [(''m.o'', Node (fileAt 1500) None [])])]),
         (''src'', Node (dirAt 1500) None [(''m.go'', Node (fileAt 1500) None [])])]
        (initialVars [])
      = Inr (None,
          \<lparr>fileList = [''src/m.go''], directoryList = [''src''], modifiedList = [''src/m.go''],
           UploadedFileList = [\<lparr>FilePath = ''src/m.go'', Status = ''200 OK'', StatusCode = 200\<rparr>],
           refPathsChanged = False,
           sent = [Dispatch (uploadRequest exampleURL ''abc''
                     \<lparr>IsDirectory = False, Mode = 420, RelativePath = ''src/m.go'', Message = ''G''\<rparr>)]\<rparr>)"
proof -
  have h1: "IsDir (dirAt 1500)" by code_simp
  have h2: "Join ''/proj'' ''build'' \<noteq> ''/proj''" by code_simp
  have h3: "length ''/proj'' + 1 \<le> length (Join ''/proj'' ''build'')" by code_simp
  have h4: "ignoreFileOrDirectory (ToSlash (drop (length ''/proj'' + 1) (Join ''/proj'' ''build'')))
      True [''build'']" by code_simp
  have "walkNames (walkFn buildWorld ''/proj'' ''abc'' (Connection ''local'') exampleURL [''build''] 1000)
        ''/proj''
        ((''build'', Node (dirAt 1500) None
            [(''out.bin'', Node (fileAt 1500) None []),
             (''obj'', Node (dirAt 1500) None [(''m.o'', Node (fileAt 1500) None [])])]) #
         [(''src'', Node (dirAt 1500) None [(''m.go'', Node (fileAt 1500) None [])])])
        (initialVars [])
      = walkNames (walkFn buildWorld ''/proj'' ''abc'' (Connection ''local'') exampleURL [''build''] 1000)
        ''/proj''
        [(''src'', Node (dirAt 1500) None [(''m.go'', Node (fileAt 1500) None [])])]
        (initialVars [])"
    using C7_ignored_directory_is_pruned [OF h1 h2 h3 h4] by blast
  also have "\<dots> = Inr (None,
          \<lparr>fileList = [''src/m.go''], directoryList = [''src''], modifiedList = [''src/m.go''],
           UploadedFileList = [\<lparr>FilePath = ''src/m.go'', Status = ''200 OK'', StatusCode = 200\<rparr>],
           refPathsChanged = False,
           sent = [Dispatch (uploadRequest exampleURL ''abc''
                     \<lparr>IsDirectory = False, Mode = 420, RelativePath = ''src/m.go'', Message = ''G''\<rparr>)]\<rparr>)"
    by code_simp
  finally show ?thesis using h1 h2 h3 h4 by simp
qed

end
